theory Spec2Isabelle
  imports Main "HOL-Library.Word"
begin

section \<open>Python values used by the function modules\<close>

text \<open>
  A Python \<open>bytes\<close> object is a list of 8-bit words. A Python \<open>str\<close> is a sequence of
  Unicode code points, so it is a list of naturals (an Isabelle \<open>char\<close> holds one byte
  only). \<open>ustr\<close> turns an ASCII literal of the source into such a string.
\<close>

type_synonym byte = "8 word"
type_synonym bytes = "byte list"
type_synonym pystr = "nat list"

definition ustr :: "string \<Rightarrow> pystr" where
  "ustr s = map of_char s"

text \<open>
  An exception is its class name and the text \<open>str(e)\<close> gives. Only subclasses of
  \<open>Exception\<close> are modelled: an asynchronous interrupt (\<open>KeyboardInterrupt\<close>) is outside
  the model.
\<close>

datatype exn = Exception (exn_class: string) (exn_str: pystr)

subsection \<open>\<open>str(int)\<close> and hexadecimal bytes\<close>

fun digits :: "nat \<Rightarrow> pystr" where
  "digits n = (if n < 10 then [48 + n] else digits (n div 10) @ [48 + n mod 10])"

declare digits.simps [simp del]

definition str_int :: "int \<Rightarrow> pystr" where
  "str_int i = (if i < 0 then 45 # digits (nat (- i)) else digits (nat i))"

definition hexdigit :: "nat \<Rightarrow> nat" where
  "hexdigit d = (if d < 10 then 48 + d else 87 + d)"

definition hex2 :: "nat \<Rightarrow> pystr" where
  "hex2 b = [hexdigit (b div 16 mod 16), hexdigit (b mod 16)]"

subsection \<open>\<open>str.strip()\<close>\<close>

text \<open>
  \<open>str.strip()\<close> without argument removes leading and trailing characters for which
  \<open>str.isspace()\<close> holds: the ASCII controls 9 to 13 and 28 to 31, the space, and the
  Unicode white space beyond ASCII.
\<close>

definition isspace :: "nat \<Rightarrow> bool" where
  "isspace c = ((9 \<le> c \<and> c \<le> 13) \<or> (28 \<le> c \<and> c \<le> 32) \<or> c = 0x85 \<or> c = 0xA0
     \<or> c = 0x1680 \<or> (0x2000 \<le> c \<and> c \<le> 0x200A) \<or> c = 0x2028 \<or> c = 0x2029
     \<or> c = 0x202F \<or> c = 0x205F \<or> c = 0x3000)"

definition lstrip :: "pystr \<Rightarrow> pystr" where
  "lstrip s = dropWhile isspace s"

definition rstrip :: "pystr \<Rightarrow> pystr" where
  "rstrip s = rev (dropWhile isspace (rev s))"

definition strip :: "pystr \<Rightarrow> pystr" where
  "strip s = rstrip (lstrip s)"

subsection \<open>\<open>bytes.decode()\<close>: the strict UTF-8 codec\<close>

text \<open>
  \<open>bytes.decode()\<close> and \<open>bytes.decode("utf-8")\<close> are the same call: the codec is UTF-8 and
  the error handler is \<open>strict\<close>, which raises \<open>UnicodeDecodeError\<close> at the first
  ill-formed sequence. The decoder follows CPython's: it rejects stray continuation
  bytes, overlong forms (lead bytes C0 and C1, E0 before A0, F0 before 90), surrogates
  (ED from A0 on), code points beyond 10FFFF (F4 from 90 on, lead bytes from F5 on) and
  truncated sequences. An error carries the range of offending bytes and the reason.
\<close>

datatype utf8_reason = UnexpectedEnd | InvalidStart | InvalidContinuation

record decode_error =
  err_start :: nat
  err_end :: nat
  err_reason :: utf8_reason

definition derr :: "nat \<Rightarrow> nat \<Rightarrow> utf8_reason \<Rightarrow> decode_error + pystr" where
  "derr s e r = Inl \<lparr>err_start = s, err_end = e, err_reason = r\<rparr>"

definition emit :: "nat \<Rightarrow> decode_error + pystr \<Rightarrow> decode_error + pystr" where
  "emit c r = (case r of Inl e \<Rightarrow> Inl e | Inr cs \<Rightarrow> Inr (c # cs))"

definition is_cont :: "nat \<Rightarrow> bool" where
  "is_cont b = (0x80 \<le> b \<and> b < 0xC0)"

fun utf8_decode :: "nat \<Rightarrow> nat list \<Rightarrow> decode_error + pystr" where
  "utf8_decode pos [] = Inr []"
| "utf8_decode pos (ch # s) =
    (if ch < 0x80 then emit ch (utf8_decode (pos + 1) s)
     else if ch < 0xC2 then derr pos (pos + 1) InvalidStart
     else if ch < 0xE0 then
       (case s of
          [] \<Rightarrow> derr pos (pos + 1 + length s) UnexpectedEnd
        | ch2 # s2 \<Rightarrow>
            if \<not> is_cont ch2 then derr pos (pos + 1) InvalidContinuation
            else emit ((ch - 0xC0) * 64 + (ch2 - 0x80)) (utf8_decode (pos + 2) s2))
     else if ch < 0xF0 then
       (case s of
          [] \<Rightarrow> derr pos (pos + 1 + length s) UnexpectedEnd
        | ch2 # s2 \<Rightarrow>
            if \<not> is_cont ch2 \<or> (if ch2 < 0xA0 then ch = 0xE0 else ch = 0xED)
            then derr pos (pos + 1) InvalidContinuation
            else (case s2 of
                [] \<Rightarrow> derr pos (pos + 1 + length s) UnexpectedEnd
              | ch3 # s3 \<Rightarrow>
                  if \<not> is_cont ch3 then derr pos (pos + 2) InvalidContinuation
                  else emit ((ch - 0xE0) * 4096 + (ch2 - 0x80) * 64 + (ch3 - 0x80))
                         (utf8_decode (pos + 3) s3)))
     else if ch < 0xF5 then
       (case s of
          [] \<Rightarrow> derr pos (pos + 1 + length s) UnexpectedEnd
        | ch2 # s2 \<Rightarrow>
            if \<not> is_cont ch2 \<or> (if ch2 < 0x90 then ch = 0xF0 else ch = 0xF4)
            then derr pos (pos + 1) InvalidContinuation
            else (case s2 of
                [] \<Rightarrow> derr pos (pos + 1 + length s) UnexpectedEnd
              | ch3 # s3 \<Rightarrow>
                  if \<not> is_cont ch3 then derr pos (pos + 2) InvalidContinuation
                  else (case s3 of
                      [] \<Rightarrow> derr pos (pos + 1 + length s) UnexpectedEnd
                    | ch4 # s4 \<Rightarrow>
                        if \<not> is_cont ch4 then derr pos (pos + 3) InvalidContinuation
                        else emit ((ch - 0xF0) * 262144 + (ch2 - 0x80) * 4096
                                     + (ch3 - 0x80) * 64 + (ch4 - 0x80))
                               (utf8_decode (pos + 4) s4))))
     else derr pos (pos + 1) InvalidStart)"

definition reason_str :: "utf8_reason \<Rightarrow> pystr" where
  "reason_str r = (case r of
      UnexpectedEnd \<Rightarrow> ustr ''unexpected end of data''
    | InvalidStart \<Rightarrow> ustr ''invalid start byte''
    | InvalidContinuation \<Rightarrow> ustr ''invalid continuation byte'')"

text \<open>The text of a \<open>UnicodeDecodeError\<close>, as its \<open>__str__\<close> renders it.\<close>

definition codec_prefix :: pystr where
  "codec_prefix = [39] @ ustr ''utf-8'' @ [39] @ ustr '' codec can'' @ [39] @ ustr ''t decode ''"

definition UnicodeDecodeError :: "bytes \<Rightarrow> decode_error \<Rightarrow> exn" where
  "UnicodeDecodeError b e =
     Exception ''UnicodeDecodeError''
       (if err_start e < length b \<and> err_end e = err_start e + 1
        then codec_prefix @ ustr ''byte 0x'' @ hex2 (unat (b ! err_start e))
               @ ustr '' in position '' @ str_int (int (err_start e)) @ ustr '': ''
               @ reason_str (err_reason e)
        else codec_prefix @ ustr ''bytes in position ''
               @ str_int (int (err_start e)) @ ustr ''-'' @ str_int (int (err_end e) - 1)
               @ ustr '': '' @ reason_str (err_reason e))"

definition decode :: "bytes \<Rightarrow> exn + pystr" where
  "decode b = (case utf8_decode 0 (map unat b) of
      Inl e \<Rightarrow> Inl (UnicodeDecodeError b e)
    | Inr s \<Rightarrow> Inr s)"

section \<open>The \<open>subprocess\<close> module\<close>

text \<open>
  The host is a parameter of the model: it says what happens when a program is started
  with the given \<open>args\<close> and \<open>shell\<close> flag. Starting it may raise (\<open>OSError\<close>, or
  \<open>ValueError\<close> for an embedded null byte), waiting for it may raise, or it runs to its
  end. A process that ran wrote chunks of bytes to its standard output and standard
  error, in the order of \<open>writes\<close>, and left a return code (negative when a signal
  killed it).
\<close>

datatype fd = Out | Err

record process =
  writes :: "(fd \<times> bytes) list"
  returncode :: int

datatype run = SpawnError exn | CommunicateError exn | Exited process

datatype popen_args = ArgStr pystr | ArgList "pystr list"

type_synonym host = "popen_args \<Rightarrow> bool \<Rightarrow> run"

text \<open>
  Both callers pass \<open>stdout=subprocess.PIPE\<close>; they differ in \<open>stderr\<close>, which is
  \<open>subprocess.STDOUT\<close> (standard error goes to the pipe of standard output, so the pipe
  holds every chunk in the order written) or \<open>subprocess.PIPE\<close> (a pipe of its own).
\<close>

datatype redirect = PIPE | STDOUT

record popen =
  popen_run :: run
  popen_stderr :: redirect

definition Popen :: "host \<Rightarrow> popen_args \<Rightarrow> bool \<Rightarrow> redirect \<Rightarrow> exn + popen" where
  "Popen h args shell stderr =
     (case h args shell of
        SpawnError e \<Rightarrow> Inl e
      | r \<Rightarrow> Inr \<lparr>popen_run = r, popen_stderr = stderr\<rparr>)"

text \<open>
  \<open>communicate()\<close> reads the pipes to their end, waits for the process and sets
  \<open>returncode\<close>; the model returns the data of both pipes (\<open>None\<close> for a stream without
  a pipe) together with that return code.
\<close>

record completed =
  stdout_data :: bytes
  stderr_data :: "bytes option"
  exit_status :: int

definition piped :: "(fd \<Rightarrow> bool) \<Rightarrow> process \<Rightarrow> bytes" where
  "piped sel p = concat (map snd (filter (\<lambda>w. sel (fst w)) (writes p)))"

definition communicate :: "popen \<Rightarrow> exn + completed" where
  "communicate po =
     (case popen_run po of
        SpawnError e \<Rightarrow> Inl e
      | CommunicateError e \<Rightarrow> Inl e
      | Exited p \<Rightarrow>
          Inr \<lparr>stdout_data = piped (\<lambda>f. f = Out \<or> popen_stderr po = STDOUT) p,
               stderr_data = (if popen_stderr po = PIPE then Some (piped (\<lambda>f. f = Err) p)
                              else None),
               exit_status = returncode p\<rparr>)"

section \<open>\<open>sgpt/llm_functions/common/execute_shell.py\<close>\<close>

text \<open>
  \<open>Function.execute(cls, shell_command)\<close>. Nothing in it catches an exception, so each
  of \<open>Popen\<close>, \<open>communicate\<close> and \<open>decode\<close> that raises ends the call (\<open>Inl\<close>).
\<close>

definition execute_shell_execute :: "host \<Rightarrow> pystr \<Rightarrow> exn + pystr" where
  "execute_shell_execute h shell_command =
     (case Popen h (ArgStr shell_command) True STDOUT of
        Inl e \<Rightarrow> Inl e
      | Inr process \<Rightarrow>
          (case communicate process of
             Inl e \<Rightarrow> Inl e
           | Inr c \<Rightarrow>
               (let output = stdout_data c; exit_code = exit_status c in
                case decode output of
                  Inl e \<Rightarrow> Inl e
                | Inr text \<Rightarrow>
                    Inr (ustr ''Exit code: '' @ str_int exit_code @ ustr '', Output:''
                         @ [10] @ text))))"

section \<open>\<open>sgpt/llm_functions/mac/apple_script.py\<close>\<close>

text \<open>
  \<open>Function.execute(cls, apple_script)\<close>. The \<open>try\<close> block holds \<open>Popen\<close>,
  \<open>communicate\<close>, \<open>decode\<close> and the \<open>return\<close>; \<open>except Exception as e\<close> turns whatever
  they raise into the returned text.
\<close>

definition apple_script_try :: "host \<Rightarrow> popen_args \<Rightarrow> exn + pystr" where
  "apple_script_try h script_command =
     (case Popen h script_command False PIPE of
        Inl e \<Rightarrow> Inl e
      | Inr process \<Rightarrow>
          (case communicate process of
             Inl e \<Rightarrow> Inl e
           | Inr c \<Rightarrow>
               (case decode (stdout_data c) of
                  Inl e \<Rightarrow> Inl e
                | Inr output \<Rightarrow> Inr (ustr ''Output: '' @ strip output))))"

definition apple_script_execute :: "host \<Rightarrow> pystr \<Rightarrow> exn + pystr" where
  "apple_script_execute h apple_script =
     (let script_command = ArgList [ustr ''osascript'', ustr ''-e'', apple_script] in
      case apple_script_try h script_command of
        Inr r \<Rightarrow> Inr r
      | Inl e \<Rightarrow> Inr (ustr ''Error: '' @ exn_str e))"

section \<open>Function schemas\<close>

subsection \<open>Python values and the pydantic model class\<close>

text \<open>
  The schema is a nest of \<open>dict\<close>, \<open>list\<close> and \<open>str\<close> values. A \<open>dict\<close> is an
  association list in insertion order with \<open>d.get(k, default)\<close> and \<open>d[k]\<close>.
\<close>

datatype pyval = Str pystr | List "pyval list" | Dict "(pystr \<times> pyval) list"

type_synonym pydict = "(pystr \<times> pyval) list"

definition dict_get :: "pydict \<Rightarrow> pystr \<Rightarrow> pyval \<Rightarrow> pyval" where
  "dict_get d k dflt = (case map_of d k of Some v \<Rightarrow> v | None \<Rightarrow> dflt)"

definition getitem :: "pyval \<Rightarrow> pystr \<Rightarrow> pyval option" where
  "getitem v k = (case v of Dict d \<Rightarrow> map_of d k | _ \<Rightarrow> None)"

definition keys :: "pyval \<Rightarrow> pystr list option" where
  "keys v = (case v of Dict d \<Rightarrow> Some (map fst d) | _ \<Rightarrow> None)"

text \<open>
  What a \<open>pydantic.BaseModel\<close> subclass declares: its name, its docstring and its
  fields. Each field of the two modules is annotated \<open>str\<close>, has the default \<open>...\<close>
  (the field is required) and passes \<open>description\<close> and \<open>example\<close> to \<open>Field\<close>.
\<close>

datatype annotation = PyStr

record field_info =
  field_name :: pystr
  field_type :: annotation
  is_required :: bool
  description :: "pystr option"
  example :: "pyval option"

record model_class =
  class_name :: pystr
  doc :: "pystr option"
  model_fields :: "field_info list"

text \<open>
  \<open>cls.model_json_schema()\<close> of pydantic 2, for such classes. A property has the keys
  \<open>description\<close>, \<open>example\<close>, \<open>title\<close> and \<open>type\<close> (sorted, the first two when given); the
  title is \<open>name.title().replace('_', ' ').strip()\<close>. The result has \<open>properties\<close>,
  \<open>required\<close> (only when a field is required), \<open>title\<close> and \<open>type\<close>. Its entry
  \<open>description\<close> (the cleaned docstring) is left out: \<open>openai_schema\<close> reads
  \<open>properties\<close> and \<open>required\<close> only.
\<close>

definition islower :: "nat \<Rightarrow> bool" where
  "islower c = (97 \<le> c \<and> c \<le> 122)"

definition isupper :: "nat \<Rightarrow> bool" where
  "isupper c = (65 \<le> c \<and> c \<le> 90)"

fun title_from :: "bool \<Rightarrow> pystr \<Rightarrow> pystr" where
  "title_from prev [] = []"
| "title_from prev (c # cs) =
     (if islower c then (if prev then c else c - 32) # title_from True cs
      else if isupper c then (if prev then c + 32 else c) # title_from True cs
      else c # title_from False cs)"

definition title :: "pystr \<Rightarrow> pystr" where
  "title s = title_from False s"

definition replace_char :: "nat \<Rightarrow> nat \<Rightarrow> pystr \<Rightarrow> pystr" where
  "replace_char a b s = map (\<lambda>c. if c = a then b else c) s"

definition get_title_from_name :: "pystr \<Rightarrow> pystr" where
  "get_title_from_name name = strip (replace_char 95 32 (title name))"

definition json_type :: "annotation \<Rightarrow> pystr" where
  "json_type a = (case a of PyStr \<Rightarrow> ustr ''string'')"

definition field_schema :: "field_info \<Rightarrow> pyval" where
  "field_schema f =
     Dict ((case description f of Some d \<Rightarrow> [(ustr ''description'', Str d)] | None \<Rightarrow> [])
           @ (case example f of Some v \<Rightarrow> [(ustr ''example'', v)] | None \<Rightarrow> [])
           @ [(ustr ''title'', Str (get_title_from_name (field_name f))),
              (ustr ''type'', Str (json_type (field_type f)))])"

definition required_names :: "model_class \<Rightarrow> pystr list" where
  "required_names cls = map field_name (filter is_required (model_fields cls))"

definition model_json_schema :: "model_class \<Rightarrow> pydict" where
  "model_json_schema cls =
     [(ustr ''properties'', Dict (map (\<lambda>f. (field_name f, field_schema f)) (model_fields cls)))]
     @ (if required_names cls = [] then []
        else [(ustr ''required'', List (map Str (required_names cls)))])
     @ [(ustr ''title'', Str (class_name cls)), (ustr ''type'', Str (ustr ''object''))]"

text \<open>\<open>cls.__doc__.strip() if cls.__doc__ else ""\<close>: \<open>None\<close> and the empty string are false.\<close>

definition doc_description :: "model_class \<Rightarrow> pystr" where
  "doc_description cls =
     (case doc cls of None \<Rightarrow> [] | Some d \<Rightarrow> if d = [] then [] else strip d)"

subsection \<open>The two classes and their \<open>openai_schema\<close>\<close>

text \<open>
  The docstrings are the literals of the source files, with their line breaks and
  indentation (from Python 3.13 on the compiler removes the common indentation; the
  text after \<open>strip()\<close> of a one-line docstring is the same).
\<close>

definition execute_shell_Function :: model_class where
  "execute_shell_Function =
     \<lparr>class_name = ustr ''Function'',
      doc = Some ([10] @ ustr ''    Executes a shell command and returns the output (result).''
                  @ [10] @ ustr ''    ''),
      model_fields =
        [\<lparr>field_name = ustr ''shell_command'', field_type = PyStr, is_required = True,
          description = Some (ustr ''Shell command to execute.''),
          example = Some (Str (ustr ''ls -la''))\<rparr>]\<rparr>"

definition execute_shell_openai_schema :: "model_class \<Rightarrow> pyval" where
  "execute_shell_openai_schema cls =
     (let schema = model_json_schema cls in
      Dict [(ustr ''type'', Str (ustr ''function'')),
            (ustr ''function'',
             Dict [(ustr ''name'', Str (ustr ''execute_shell_command'')),
                   (ustr ''description'', Str (doc_description cls)),
                   (ustr ''parameters'',
                    Dict [(ustr ''type'', Str (ustr ''object'')),
                          (ustr ''properties'', dict_get schema (ustr ''properties'') (Dict [])),
                          (ustr ''required'', dict_get schema (ustr ''required'') (List []))])])])"

definition apple_script_Function :: model_class where
  "apple_script_Function =
     \<lparr>class_name = ustr ''Function'',
      doc = Some ([10]
                  @ ustr ''    Executes Apple Script on macOS and returns the output (result).''
                  @ [10]
                  @ ustr ''    Can be used for actions like: draft (prepare) an email, show calendar events, create a note.''
                  @ [10] @ ustr ''    ''),
      model_fields =
        [\<lparr>field_name = ustr ''apple_script'', field_type = PyStr, is_required = True,
          description = Some (ustr ''Apple Script to execute.''),
          example = Some (Str (ustr ''tell application '' @ [34] @ ustr ''Finder'' @ [34]
                               @ ustr '' to get the name of every disk''))\<rparr>]\<rparr>"

definition apple_script_openai_schema :: "model_class \<Rightarrow> pyval" where
  "apple_script_openai_schema cls =
     (let schema = model_json_schema cls in
      Dict [(ustr ''type'', Str (ustr ''function'')),
            (ustr ''function'',
             Dict [(ustr ''name'', Str (ustr ''execute_apple_script'')),
                   (ustr ''description'', Str (doc_description cls)),
                   (ustr ''parameters'',
                    Dict [(ustr ''type'', Str (ustr ''object'')),
                          (ustr ''properties'', dict_get schema (ustr ''properties'') (Dict [])),
                          (ustr ''required'', dict_get schema (ustr ''required'') (List []))])])])"

subsection \<open>The registered functions\<close>

datatype registered = ShellExecutor | HostAutomationExecutor

definition declared :: "registered \<Rightarrow> model_class" where
  "declared r = (case r of ShellExecutor \<Rightarrow> execute_shell_Function
                 | HostAutomationExecutor \<Rightarrow> apple_script_Function)"

definition openai_schema :: "registered \<Rightarrow> pyval" where
  "openai_schema r = (case r of
      ShellExecutor \<Rightarrow> execute_shell_openai_schema execute_shell_Function
    | HostAutomationExecutor \<Rightarrow> apple_script_openai_schema apple_script_Function)"

definition execute :: "host \<Rightarrow> registered \<Rightarrow> pystr \<Rightarrow> exn + pystr" where
  "execute h r arg = (case r of
      ShellExecutor \<Rightarrow> execute_shell_execute h arg
    | HostAutomationExecutor \<Rightarrow> apple_script_execute h arg)"

text \<open>
  The shape \<open>{name, description, parameters: {type: object, properties: {...},
  required: [...]}}\<close> of a function description.
\<close>

definition is_dict :: "pyval \<Rightarrow> bool" where
  "is_dict v = (case v of Dict d \<Rightarrow> True | _ \<Rightarrow> False)"

definition is_list :: "pyval \<Rightarrow> bool" where
  "is_list v = (case v of List l \<Rightarrow> True | _ \<Rightarrow> False)"

definition is_str :: "pyval \<Rightarrow> bool" where
  "is_str v = (case v of Str l \<Rightarrow> True | _ \<Rightarrow> False)"

definition parameters_shape :: "pyval \<Rightarrow> bool" where
  "parameters_shape v =
     (keys v = Some [ustr ''type'', ustr ''properties'', ustr ''required'']
      \<and> getitem v (ustr ''type'') = Some (Str (ustr ''object''))
      \<and> (case getitem v (ustr ''properties'') of Some q \<Rightarrow> is_dict q | None \<Rightarrow> False)
      \<and> (case getitem v (ustr ''required'') of Some q \<Rightarrow> is_list q | None \<Rightarrow> False))"

definition function_shape :: "pyval \<Rightarrow> bool" where
  "function_shape v =
     (keys v = Some [ustr ''name'', ustr ''description'', ustr ''parameters'']
      \<and> (case getitem v (ustr ''name'') of Some q \<Rightarrow> is_str q | None \<Rightarrow> False)
      \<and> (case getitem v (ustr ''description'') of Some q \<Rightarrow> is_str q | None \<Rightarrow> False)
      \<and> (case getitem v (ustr ''parameters'') of Some q \<Rightarrow> parameters_shape q | None \<Rightarrow> False))"

text \<open>\<open>v[k1][k2]...\<close>, \<open>None\<close> when a key is missing or a value on the way is no \<open>dict\<close>.\<close>

definition path :: "pyval \<Rightarrow> pystr list \<Rightarrow> pyval option" where
  "path v ks = fold (\<lambda>k r. case r of None \<Rightarrow> None | Some w \<Rightarrow> getitem w k) ks (Some v)"

section \<open>The orchestration engine\<close>

text \<open>
  The engine, its stores and the interactive loop (the application entry point, the
  handlers, the role, cache and chat-session modules and the REPL handler) are not
  among the source files at hand; only their integration tests are. Every definition of
  this section is modelled from the specification, section by section.
\<close>

subsection \<open>Data model\<close>

text \<open>
  Modelled from the spec: \<open>RoleDefinition\<close> and \<open>ChatMessage\<close> of section 3; the role
  and message types of the missing role and handler modules.
\<close>

datatype expect = Plain | Shell | Code | Description

record RoleDefinition =
  name :: pystr
  role_text :: pystr
  expect :: expect

datatype message_role = System | User | Assistant | Function

record ChatMessage =
  role :: message_role
  content :: pystr
  function_name :: "pystr option"
  function_call :: "(pystr \<times> pystr) option"

text \<open>
  Modelled from the spec: the \<open>ChatSession\<close> of section 3 (the missing chat-session
  module), an ordered message sequence per session id. The spec speaks of a session
  "bound to a role"; the binding is kept with the session.
\<close>

record ChatSession =
  messages :: "ChatMessage list"
  bound_role :: RoleDefinition

text \<open>
  Modelled from the spec: the modes of the glossary and the three mode flags of a call
  (section 4.5), the error taxonomy of section 7 (with one more error for the iteration
  ceiling section 9 asks for) and the states of the state machine of section 4.5; all
  of the missing entry point and handler.
\<close>

datatype mode = ShellGeneration | ShellDescription | CodeGeneration | PlainChat

record mode_flags =
  shell :: bool
  describe_shell :: bool
  code :: bool

datatype error =
    RoleNotFound | RoleModeConflict | ModeConflict | CompletionBoundaryError
  | SessionStoreCorruption | IterationCeilingExceeded

datatype phase =
    IDLE | ROLE_RESOLVED | HISTORY_LOADED | AWAITING_COMPLETION | FUNCTION_REQUESTED
  | DISPATCHING | DONE

text \<open>
  Modelled from the spec: the inputs of the cache fingerprint (sections 3 and 4.2) of
  the missing cache module, which
  are also what goes out to the completion boundary (section 6), and what comes back
  from it: a final text or a function-call intent (name and arguments). Temperature and top-p
  are kept as integers (thousandths). The fingerprint is taken to be free of collisions:
  the inputs themselves are the key.
\<close>

record key_inputs =
  key_messages :: "ChatMessage list"
  model :: pystr
  temperature :: int
  top_p :: int
  function_schemas :: "pyval list"

datatype response = Final pystr | FunctionCallIntent pystr pystr

text \<open>
  Modelled from the spec: the \<open>CacheEntry\<close> store of sections 3 and 4.2 (the missing
  cache module), most recently used entry first, with its configured entry-count
  ceiling.
\<close>

record ('k, 'v) CompletionCache =
  entries :: "('k \<times> 'v) list"
  max_entries :: nat

text \<open>
  Modelled from the spec: what surrounds the missing engine (sections 4.4, 4.5, 6 and
  9): the remote completion service, the function dispatcher
  (which by section 4.4 always returns a text), the post-processing per \<open>expect\<close>, the
  texts of the built-in roles, the configuration, the schemas offered per mode and the
  iteration ceiling section 9 asks an implementer to choose.
\<close>

record env =
  remote :: "key_inputs \<Rightarrow> error + response"
  dispatch :: "pystr \<Rightarrow> pystr \<Rightarrow> pystr"
  post_process :: "expect \<Rightarrow> pystr \<Rightarrow> pystr"
  default_text :: "mode \<Rightarrow> pystr"
  default_model :: pystr
  default_temperature :: int
  default_top_p :: int
  schemas :: "mode \<Rightarrow> pyval list"
  max_rounds :: nat

text \<open>
  Modelled from the spec: the state of the missing engine, which is both stores, the
  cache, and two logs that only grow, the requests sent to the remote service (the
  network activity) and the state-machine transitions made; and the arguments of
  \<open>run_single_turn\<close> (section 6; streaming is left out, the result is the whole text).
\<close>

record engine =
  roles :: "pystr \<rightharpoonup> RoleDefinition"
  sessions :: "pystr \<rightharpoonup> ChatSession"
  cache :: "(key_inputs, response) CompletionCache"
  remote_calls :: "key_inputs list"
  transitions :: "phase list"

record call =
  prompt :: pystr
  flags :: mode_flags
  session_id :: "pystr option"
  call_role :: "pystr option"
  caching :: bool

subsection \<open>RoleStore (section 4.1)\<close>

text \<open>
  Modelled from the spec: the built-in default roles of the missing role module, keyed
  by mode (shell-generator, shell-describer, code-generator, plain-chat default), each
  expecting the output of its mode; their texts come from the surroundings.
\<close>

definition expect_of_mode :: "mode \<Rightarrow> expect" where
  "expect_of_mode m = (case m of
      ShellGeneration \<Rightarrow> Shell | ShellDescription \<Rightarrow> Description
    | CodeGeneration \<Rightarrow> Code | PlainChat \<Rightarrow> Plain)"

definition default_name :: "mode \<Rightarrow> pystr" where
  "default_name m = (case m of
      ShellGeneration \<Rightarrow> ustr ''shell-generator'' | ShellDescription \<Rightarrow> ustr ''shell-describer''
    | CodeGeneration \<Rightarrow> ustr ''code-generator'' | PlainChat \<Rightarrow> ustr ''plain-chat'')"

definition default_role :: "env \<Rightarrow> mode \<Rightarrow> RoleDefinition" where
  "default_role ev m =
     \<lparr>name = default_name m, role_text = default_text ev m, expect = expect_of_mode m\<rparr>"

text \<open>
  Modelled from the spec: the compatibility check of the missing role module. A
  requested mode is incompatible with a bound role when the
  call asks for one of the three output disciplines and the role expects another one
  (the example of section 4.1: a session created in code mode, driven in shell mode).
  A call without mode flag asks for none.
\<close>

definition compatible :: "expect \<Rightarrow> mode \<Rightarrow> bool" where
  "compatible e m = (m = PlainChat \<or> e = expect_of_mode m)"

text \<open>
  Modelled from the spec: \<open>resolve\<close> of section 4.1 (missing role module). A session that exists keeps its
  role, and its binding is checked first, so that \<open>RoleModeConflict\<close> is raised whatever
  role name the call carries; otherwise the built-in default of the mode when no name
  is given, and \<open>RoleNotFound\<close> for a name without match. The session it is given is
  the one stored when the turn starts: a loop entered on the temporary session has
  discarded it before (\<open>loop_entry\<close> below), and then there is nothing to conflict with.
\<close>

definition resolve ::
  "env \<Rightarrow> engine \<Rightarrow> pystr option \<Rightarrow> mode \<Rightarrow> ChatSession option \<Rightarrow> error + RoleDefinition"
where
  "resolve ev st rn m sess =
     (case sess of
        Some s \<Rightarrow> if compatible (expect (bound_role s)) m then Inr (bound_role s)
                  else Inl RoleModeConflict
      | None \<Rightarrow>
          (case rn of
             None \<Rightarrow> Inr (default_role ev m)
           | Some n \<Rightarrow> (case roles st n of None \<Rightarrow> Inl RoleNotFound | Some r \<Rightarrow> Inr r)))"

subsection \<open>CompletionCache (section 4.2)\<close>

text \<open>
  Modelled from the spec: \<open>get_or_compute\<close> of the missing cache module. On a hit the stored value is returned and
  the compute function is not invoked (the entry becomes the most recently used). On a
  miss the compute function is invoked; its result is stored and the least recently
  used entries beyond the ceiling are dropped; a failure of the compute function goes
  to the caller and nothing is stored. \<open>'w\<close> is whatever the compute function acts on.
\<close>

definition get_or_compute ::
  "('k, 'v) CompletionCache \<Rightarrow> 'k \<Rightarrow> ('w \<Rightarrow> (error + 'v) \<times> 'w) \<Rightarrow> 'w
     \<Rightarrow> (error + 'v) \<times> ('k, 'v) CompletionCache \<times> 'w"
where
  "get_or_compute c k compute_fn w =
     (case map_of (entries c) k of
        Some v \<Rightarrow> (Inr v, c\<lparr>entries := (k, v) # filter (\<lambda>e. fst e \<noteq> k) (entries c)\<rparr>, w)
      | None \<Rightarrow>
          (case compute_fn w of
             (Inl e, w') \<Rightarrow> (Inl e, c, w')
           | (Inr v, w') \<Rightarrow>
               (Inr v, c\<lparr>entries := take (max_entries c) ((k, v) # entries c)\<rparr>, w')))"

text \<open>
  Modelled from the spec: what the missing cache module keeps true of its store. The
  configured ceiling is at least one entry, the store holds no more entries than the
  ceiling, and a key is stored at most once.
\<close>

definition cache_ok :: "('k, 'v) CompletionCache \<Rightarrow> bool" where
  "cache_ok c =
     (0 < max_entries c \<and> length (entries c) \<le> max_entries c \<and> distinct (map fst (entries c)))"

text \<open>
  Modelled from the spec: the repeated calls of section 8 (cache idempotence) with one
  key, each acting on the cache and the world the call before left; the results are
  returned in order.
\<close>

fun repeated ::
  "nat \<Rightarrow> ('k, 'v) CompletionCache \<Rightarrow> 'k \<Rightarrow> ('w \<Rightarrow> (error + 'v) \<times> 'w) \<Rightarrow> 'w
     \<Rightarrow> (error + 'v) list \<times> ('k, 'v) CompletionCache \<times> 'w"
where
  "repeated 0 c k compute_fn w = ([], c, w)"
| "repeated (Suc n) c k compute_fn w =
     (case get_or_compute c k compute_fn w of
        (r, c', w') \<Rightarrow>
          (case repeated n c' k compute_fn w' of (rs, c'', w'') \<Rightarrow> (r # rs, c'', w'')))"


text \<open>
  Modelled from the spec: calls to the missing cache module with several keys, one
  after the other, each with its own compute function; and how many entries of the
  store are more recently used than the entry of a key (the eviction of section 4.2
  drops the least recently used entries, which are the last ones of the store).
\<close>

fun run_calls ::
  "('k, 'v) CompletionCache \<Rightarrow> ('k \<times> ('w \<Rightarrow> (error + 'v) \<times> 'w)) list \<Rightarrow> 'w
     \<Rightarrow> ('k, 'v) CompletionCache \<times> 'w"
where
  "run_calls c [] w = (c, w)"
| "run_calls c ((k, f) # calls) w =
     (case get_or_compute c k f w of (r, c', w') \<Rightarrow> run_calls c' calls w')"

definition lru_position :: "'k \<Rightarrow> ('k \<times> 'v) list \<Rightarrow> nat" where
  "lru_position k es = length (takeWhile (\<lambda>e. fst e \<noteq> k) es)"

subsection \<open>ChatSessionStore (section 4.3)\<close>

text \<open>
  Modelled from the spec: \<open>load\<close> of the missing chat-session module; the sequence is
  empty for an unknown session.
\<close>

definition load :: "engine \<Rightarrow> pystr \<Rightarrow> ChatMessage list" where
  "load st sid = (case sessions st sid of None \<Rightarrow> [] | Some s \<Rightarrow> messages s)"

text \<open>
  Modelled from the spec: \<open>append\<close> of the missing chat-session module adds the
  messages of a turn as one unit; a session absent from the store is created, bound to
  the role of its first turn.
\<close>

definition session_append :: "pystr \<Rightarrow> ChatMessage list \<Rightarrow> RoleDefinition \<Rightarrow> engine \<Rightarrow> engine" where
  "session_append sid new r st =
     st\<lparr>sessions := (sessions st)(sid \<mapsto>
          (case sessions st sid of
             None \<Rightarrow> \<lparr>messages = new, bound_role = r\<rparr>
           | Some s \<Rightarrow> s\<lparr>messages := messages s @ new\<rparr>))\<rparr>"

text \<open>
  Modelled from the spec: \<open>delete\<close> of the missing chat-session module, by which a
  session is destroyed (section 3); the next turn on its id creates a new session.
\<close>

definition delete_session :: "pystr \<Rightarrow> engine \<Rightarrow> engine" where
  "delete_session sid st = st\<lparr>sessions := (sessions st)(sid := None)\<rparr>"

subsection \<open>OrchestrationEngine (section 4.5)\<close>

text \<open>
  Modelled from the spec: the messages the missing handler builds (the system message
  of a role, the user message of a prompt, the assistant message of an answer, the
  assistant message of a function-call intent and the function message of a result),
  the number of mode flags set, the mode they select, the request for a message list,
  and the call of the remote service, which is logged.
\<close>

definition system_message :: "RoleDefinition \<Rightarrow> ChatMessage" where
  "system_message r =
     \<lparr>role = System, content = role_text r, function_name = None, function_call = None\<rparr>"

definition user_message :: "pystr \<Rightarrow> ChatMessage" where
  "user_message p = \<lparr>role = User, content = p, function_name = None, function_call = None\<rparr>"

definition assistant_message :: "pystr \<Rightarrow> ChatMessage" where
  "assistant_message t =
     \<lparr>role = Assistant, content = t, function_name = None, function_call = None\<rparr>"

definition intent_message :: "pystr \<Rightarrow> pystr \<Rightarrow> ChatMessage" where
  "intent_message f args =
     \<lparr>role = Assistant, content = [], function_name = None, function_call = Some (f, args)\<rparr>"

definition function_message :: "pystr \<Rightarrow> pystr \<Rightarrow> ChatMessage" where
  "function_message f result =
     \<lparr>role = Function, content = result, function_name = Some f, function_call = None\<rparr>"

definition active_modes :: "mode_flags \<Rightarrow> nat" where
  "active_modes fl =
     (if shell fl then 1 else 0) + (if describe_shell fl then 1 else 0) + (if code fl then 1 else 0)"

definition mode_of :: "mode_flags \<Rightarrow> mode" where
  "mode_of fl =
     (if shell fl then ShellGeneration else if describe_shell fl then ShellDescription
      else if code fl then CodeGeneration else PlainChat)"

definition request :: "env \<Rightarrow> mode \<Rightarrow> ChatMessage list \<Rightarrow> key_inputs" where
  "request ev m msgs =
     \<lparr>key_messages = msgs, model = default_model ev, temperature = default_temperature ev,
      top_p = default_top_p ev, function_schemas = schemas ev m\<rparr>"

definition call_remote :: "env \<Rightarrow> key_inputs \<Rightarrow> key_inputs list \<Rightarrow> (error + response) \<times> key_inputs list" where
  "call_remote ev req log = (remote ev req, log @ [req])"

text \<open>
  Modelled from the spec: the call of the missing handler to the cache or the
  completion boundary; with caching turned off the cache is neither read nor written.
  \<open>enter\<close> logs state-machine transitions.
\<close>

definition completion :: "env \<Rightarrow> bool \<Rightarrow> key_inputs \<Rightarrow> engine \<Rightarrow> (error + response) \<times> engine" where
  "completion ev use_cache req st =
     (if use_cache then
        (case get_or_compute (cache st) req (call_remote ev req) (remote_calls st) of
           (r, c, log) \<Rightarrow> (r, st\<lparr>cache := c, remote_calls := log\<rparr>))
      else
        (case call_remote ev req (remote_calls st) of
           (r, log) \<Rightarrow> (r, st\<lparr>remote_calls := log\<rparr>)))"

definition enter :: "phase list \<Rightarrow> engine \<Rightarrow> engine" where
  "enter ps st = st\<lparr>transitions := transitions st @ ps\<rparr>"

text \<open>
  Modelled from the spec: the function loop of the missing handler, \<open>AWAITING_COMPLETION
  \<rightarrow> (FUNCTION_REQUESTED \<rightarrow> DISPATCHING \<rightarrow> AWAITING_COMPLETION)*\<close>. A function-call intent
  is appended to the outbound messages as an assistant message, the dispatcher's
  result as a function message, and the boundary is called again with them. The fuel
  is the iteration ceiling: when it runs out the turn fails. The result is the final
  text.
\<close>

fun complete ::
  "env \<Rightarrow> mode \<Rightarrow> bool \<Rightarrow> nat \<Rightarrow> ChatMessage list \<Rightarrow> engine \<Rightarrow> (error + pystr) \<times> engine"
where
  "complete ev m use_cache 0 msgs st = (Inl IterationCeilingExceeded, st)"
| "complete ev m use_cache (Suc n) msgs st =
     (case completion ev use_cache (request ev m msgs) (enter [AWAITING_COMPLETION] st) of
        (Inl e, st1) \<Rightarrow> (Inl e, st1)
      | (Inr (Final text), st1) \<Rightarrow> (Inr text, st1)
      | (Inr (FunctionCallIntent f args), st1) \<Rightarrow>
          complete ev m use_cache n
            (msgs @ [intent_message f args, function_message f (dispatch ev f args)])
            (enter [FUNCTION_REQUESTED, DISPATCHING] st1))"

text \<open>
  Modelled from the spec: one turn of the missing entry point and handler. The mode
  flags are checked before anything else; then the role is resolved, the history
  loaded (for a call without session, or a session absent from the store, it is the
  system message of the role), the boundary called, and on a final answer the turn is
  persisted by one \<open>append\<close> (never for a call without session) and the post-processed
  text returned. What is persisted is what section 8 says a reader finds last in the
  session after a turn: the submitted user message and the produced assistant message
  (before them the system message, when the turn creates the session). The intents and
  results of the function loop go out to the completion boundary with the next request
  and are not stored.
\<close>

definition run_single_turn :: "env \<Rightarrow> call \<Rightarrow> engine \<Rightarrow> (error + pystr) \<times> engine" where
  "run_single_turn ev c st =
     (if 1 < active_modes (flags c) then (Inl ModeConflict, st)
      else
        (let m = mode_of (flags c);
             sess = (case session_id c of None \<Rightarrow> None | Some sid \<Rightarrow> sessions st sid)
         in case resolve ev st (call_role c) m sess of
              Inl e \<Rightarrow> (Inl e, st)
            | Inr r \<Rightarrow>
                (let first = (case sess of None \<Rightarrow> [system_message r] | Some s \<Rightarrow> []);
                     history = (case sess of None \<Rightarrow> [] | Some s \<Rightarrow> messages s) @ first;
                     user = user_message (prompt c)
                 in case complete ev m (caching c) (Suc (max_rounds ev)) (history @ [user])
                           (enter [ROLE_RESOLVED, HISTORY_LOADED] st) of
                      (Inl e, st2) \<Rightarrow> (Inl e, st2)
                    | (Inr text, st2) \<Rightarrow>
                        (let answer = post_process ev (expect r) text;
                             new = first @ [user, assistant_message answer];
                             st3 = enter [DONE] st2
                         in (Inr answer,
                             case session_id c of None \<Rightarrow> st3
                             | Some sid \<Rightarrow> session_append sid new r st3)))))"

text \<open>
  Modelled from the spec: a sequence of turns, each on the state the turn before left;
  the results are returned in order.
\<close>

fun run_turns :: "env \<Rightarrow> call list \<Rightarrow> engine \<Rightarrow> (error + pystr) list \<times> engine" where
  "run_turns ev [] st = ([], st)"
| "run_turns ev (c # cs) st =
     (case run_single_turn ev c st of
        (r, st1) \<Rightarrow> (case run_turns ev cs st1 of (rs, st2) \<Rightarrow> (r # rs, st2)))"

subsection \<open>ReplLoop (section 4.6)\<close>

text \<open>
  Modelled from the spec: the missing REPL handler. The loop reads one line at a time. A line that is the
  delimiter (three double quotes) opens a block; the lines up to the closing delimiter
  are joined by line breaks into one prompt. Outside a block the exit token ends the
  loop and, in shell-producing mode, \<open>e\<close> asks for the execution and \<open>d\<close> for the
  description of the last command. The second argument is the block being
  accumulated, if any.
\<close>

datatype repl_action = Submit pystr | ExecuteLast | DescribeLast

definition delimiter :: pystr where
  "delimiter = [34, 34, 34]"

definition exit_token :: pystr where
  "exit_token = ustr ''exit()''"

fun join_lines :: "pystr list \<Rightarrow> pystr" where
  "join_lines [] = []"
| "join_lines [l] = l"
| "join_lines (l # ls) = l @ [10] @ join_lines ls"

fun repl_actions :: "bool \<Rightarrow> pystr list option \<Rightarrow> pystr list \<Rightarrow> repl_action list" where
  "repl_actions sh blk [] = []"
| "repl_actions sh None (l # ls) =
     (if l = delimiter then repl_actions sh (Some []) ls
      else if l = exit_token then []
      else if sh \<and> l = ustr ''e'' then ExecuteLast # repl_actions sh None ls
      else if sh \<and> l = ustr ''d'' then DescribeLast # repl_actions sh None ls
      else Submit l # repl_actions sh None ls)"
| "repl_actions sh (Some acc) (l # ls) =
     (if l = delimiter then Submit (join_lines acc) # repl_actions sh None ls
      else repl_actions sh (Some (acc @ [l])) ls)"

definition submitted :: "repl_action list \<Rightarrow> pystr list" where
  "submitted as = concat (map (\<lambda>a. case a of Submit p \<Rightarrow> [p] | _ \<Rightarrow> []) as)"

text \<open>
  Modelled from the spec: the missing REPL handler driving the engine, and what the
  integration tests show of it. Section 3 has a session destroyed by delete or by
  overwrite on a mode change; \<open>test_repl_shell\<close> and \<open>test_repl_describe_command\<close> enter a
  loop on the session \<open>temp\<close> that a loop in another mode left ("Temp chat session from
  previous test should be overwritten") and find the stored messages start with the
  system message of the new mode and the new first prompt. So the session \<open>temp\<close> is
  temporary: a loop entered on it discards what is stored. A loop on another session
  continues it, as \<open>test_repl_code\<close> shows on coming back after exit. Each accepted
  prompt then goes to \<open>run_single_turn\<close>, bound to the session of the loop (the two
  one-character tokens act on the last command only, not on the session).
\<close>

definition temporary_session :: pystr where
  "temporary_session = ustr ''temp''"

definition loop_entry :: "pystr \<Rightarrow> engine \<Rightarrow> engine" where
  "loop_entry sid st = (if sid = temporary_session then delete_session sid st else st)"

definition repl_loop ::
  "env \<Rightarrow> mode_flags \<Rightarrow> pystr \<Rightarrow> bool \<Rightarrow> pystr list \<Rightarrow> engine \<Rightarrow> (error + pystr) list \<times> engine"
where
  "repl_loop ev fl sid use_cache lines st =
     run_turns ev
       (map (\<lambda>p. \<lparr>prompt = p, flags = fl, session_id = Some sid, call_role = None,
                  caching = use_cache\<rparr>)
            (submitted (repl_actions (shell fl) None lines)))
       (loop_entry sid st)"

text \<open>
  Modelled from the spec: the two ways the surrounding application invokes the missing
  engine (section 2), a single turn or a loop over input lines, and a sequence of
  invocations.
\<close>

datatype invocation = SingleTurn call | Loop mode_flags pystr bool "pystr list"

definition invoke :: "env \<Rightarrow> invocation \<Rightarrow> engine \<Rightarrow> engine" where
  "invoke ev i st = (case i of
      SingleTurn c \<Rightarrow> snd (run_single_turn ev c st)
    | Loop fl sid use_cache lines \<Rightarrow> snd (repl_loop ev fl sid use_cache lines st))"

fun run_invocations :: "env \<Rightarrow> invocation list \<Rightarrow> engine \<Rightarrow> engine" where
  "run_invocations ev [] st = st"
| "run_invocations ev (i # is) st = run_invocations ev is (invoke ev i st)"

subsection \<open>Example surroundings\<close>

text \<open>
  A remote service that answers every request with \<open>ls -la\<close>; one that first asks for
  \<open>execute_shell_command\<close> (the function loop example of section 8) and answers once the
  result is in the messages; one that answers from a script, by the content of the
  last message of the request, with a script for the prompts of the integration tests;
  an engine with nothing stored; calls bound to the session \<open>temp\<close> or to a named
  session; mode flags; and a cache key.
\<close>

definition example_env :: env where
  "example_env =
     \<lparr>remote = (\<lambda>req. Inr (Final (ustr ''ls -la''))),
      dispatch = (\<lambda>f args. ustr ''Exit code: 0, Output:'' @ [10] @ ustr ''total 0'' @ [10]),
      post_process = (\<lambda>e t. t),
      default_text = (\<lambda>m. ustr ''You are '' @ default_name m),
      default_model = ustr ''gpt-4o'',
      default_temperature = 0,
      default_top_p = 1000,
      schemas = (\<lambda>m. []),
      max_rounds = 4\<rparr>"

definition function_env :: env where
  "function_env =
     example_env
       \<lparr>remote := (\<lambda>req. case rev (key_messages req) of
            [] \<Rightarrow> Inl CompletionBoundaryError
          | m # ms \<Rightarrow>
              if role m = User
              then Inr (FunctionCallIntent (ustr ''execute_shell_command'')
                     (ustr ''{'' @ [34] @ ustr ''shell_command'' @ [34] @ ustr '': '' @ [34]
                      @ ustr ''ls -la'' @ [34] @ ustr ''}''))
              else Inr (Final (ustr ''ls -la''))),
        schemas := (\<lambda>m. [openai_schema ShellExecutor])\<rparr>"

definition scripted_env :: "(pystr \<Rightarrow> pystr) \<Rightarrow> env" where
  "scripted_env reply =
     example_env
       \<lparr>remote := (\<lambda>req. case rev (key_messages req) of
            [] \<Rightarrow> Inl CompletionBoundaryError
          | m # ms \<Rightarrow> Inr (Final (reply (content m))))\<rparr>"

definition example_reply :: "pystr \<Rightarrow> pystr" where
  "example_reply p =
     (if p = ustr ''Simple sort by name'' then ustr ''ls -la | sort''
      else if p = ustr ''Using python request localhost:80.''
        then ustr ''requests.get('' @ [34] @ ustr ''http://localhost:80'' @ [34] @ ustr '')''
      else if p = ustr ''Change port to 443.''
        then ustr ''requests.get('' @ [34] @ ustr ''http://localhost:443'' @ [34] @ ustr '')''
      else ustr ''ls -la'')"

definition empty_engine :: engine where
  "empty_engine =
     \<lparr>roles = Map.empty, sessions = Map.empty,
      cache = \<lparr>entries = [], max_entries = 100\<rparr>,
      remote_calls = [], transitions = []\<rparr>"

definition example_call :: "pystr \<Rightarrow> bool \<Rightarrow> bool \<Rightarrow> call" where
  "example_call p sh cd =
     \<lparr>prompt = p, flags = \<lparr>shell = sh, describe_shell = False, code = cd\<rparr>,
      session_id = Some (ustr ''temp''), call_role = None, caching = False\<rparr>"

definition example_chat :: "pystr \<Rightarrow> pystr \<Rightarrow> bool \<Rightarrow> bool \<Rightarrow> call" where
  "example_chat sid p sh cd =
     \<lparr>prompt = p, flags = \<lparr>shell = sh, describe_shell = False, code = cd\<rparr>,
      session_id = Some sid, call_role = None, caching = False\<rparr>"

definition example_flags :: "bool \<Rightarrow> bool \<Rightarrow> mode_flags" where
  "example_flags sh cd = \<lparr>shell = sh, describe_shell = False, code = cd\<rparr>"


section \<open>Properties of the function modules\<close>

subsection \<open>Helper facts about the \<open>subprocess\<close> model\<close>

lemma communicate_Exited:
  "communicate \<lparr>popen_run = Exited p, popen_stderr = r\<rparr> =
     Inr \<lparr>stdout_data = piped (\<lambda>f. f = Out \<or> r = STDOUT) p,
          stderr_data = (if r = PIPE then Some (piped (\<lambda>f. f = Err) p) else None),
          exit_status = returncode p\<rparr>"
  by (simp add: communicate_def)

lemma piped_all: "piped (\<lambda>f. True) p = concat (map snd (writes p))"
  by (simp add: piped_def)

subsection \<open>The text the shell executor returns\<close>

text \<open>
  Claim C1, as the code has it. When the host shell runs \<open>shell_command\<close> to its end
  (\<open>shell=True\<close>, the command passed as one string) and the bytes the process wrote to
  standard output and standard error, taken together in the order written, are valid
  UTF-8 with decoding \<open>text\<close>, then \<open>execute\<close> returns exactly \<open>"Exit code: "\<close>, the decimal
  return code, \<open>", Output:\n"\<close> and \<open>text\<close>.
\<close>

theorem execute_shell_execute_format:
  assumes "h (ArgStr shell_command) True = Exited p"
    and "decode (concat (map snd (writes p))) = Inr text"
  shows "execute_shell_execute h shell_command =
           Inr (ustr ''Exit code: '' @ str_int (returncode p) @ ustr '', Output:'' @ [10] @ text)"
  using assms
  by (simp add: execute_shell_execute_def Popen_def communicate_Exited piped_all)

text \<open>
  Claim C1 at a concrete run: \<open>ls nosuch; echo hi\<close> writes a message with a two-byte
  character to standard error, then \<open>hi\<close> to standard output, and exits with 2.
\<close>

theorem execute_shell_execute_format_witness:
  "execute_shell_execute
     (\<lambda>args shell. if args = ArgStr (ustr ''ls nosuch; echo hi'') \<and> shell
        then Exited \<lparr>writes = [(Err, [0x6C, 0x73, 0x3A, 0x20, 0xC3, 0xA9, 0x0A]),
                                (Out, [0x68, 0x69, 0x0A])],
                     returncode = 2\<rparr>
        else SpawnError (Exception ''OSError'' []))
     (ustr ''ls nosuch; echo hi'') =
   Inr (ustr ''Exit code: 2, Output:'' @ [10] @ ustr ''ls: '' @ [233, 10] @ ustr ''hi'' @ [10])"
  using execute_shell_execute_format
    [of "\<lambda>args shell. if args = ArgStr (ustr ''ls nosuch; echo hi'') \<and> shell
        then Exited \<lparr>writes = [(Err, [0x6C, 0x73, 0x3A, 0x20, 0xC3, 0xA9, 0x0A]),
                                (Out, [0x68, 0x69, 0x0A])],
                     returncode = 2\<rparr>
        else SpawnError (Exception ''OSError'' [])"
        "ustr ''ls nosuch; echo hi''"
        "\<lparr>writes = [(Err, [0x6C, 0x73, 0x3A, 0x20, 0xC3, 0xA9, 0x0A]),
                    (Out, [0x68, 0x69, 0x0A])], returncode = 2\<rparr>"
        "ustr ''ls: '' @ [233, 10] @ ustr ''hi'' @ [10]"]
  by (simp add: decode_def emit_def is_cont_def ustr_def str_int_def digits.simps)

text \<open>
  Claim C1 as stated fails, in two ways. A command with a null character starts no
  process (\<open>Popen\<close> raises \<open>ValueError\<close>), so there is no exit code and no output to
  report. And \<open>cat photo.jpg\<close> runs to its end with exit code 0, its output starts with
  the bytes FF D8, and \<open>execute\<close> returns no text: \<open>output.decode()\<close> raises
  \<open>UnicodeDecodeError\<close>, which nothing in \<open>execute\<close> catches.
\<close>

theorem execute_shell_execute_counterexample:
  "execute_shell_execute
     (\<lambda>args shell. SpawnError (Exception ''ValueError'' (ustr ''embedded null byte'')))
     (ustr ''ls'' @ [0]) =
   Inl (Exception ''ValueError'' (ustr ''embedded null byte''))
   \<and> execute_shell_execute
     (\<lambda>args shell. Exited \<lparr>writes = [(Out, [0xFF, 0xD8])], returncode = 0\<rparr>)
     (ustr ''cat photo.jpg'') =
   Inl (Exception ''UnicodeDecodeError''
     (codec_prefix @ ustr ''byte 0xff in position 0: invalid start byte''))"
  by (simp add: execute_shell_execute_def Popen_def communicate_def piped_def
       decode_def derr_def UnicodeDecodeError_def ustr_def hex2_def hexdigit_def
       str_int_def digits.simps reason_str_def)

text \<open>
  Claim C2 at its failing input. \<open>printf '\377'\<close> writes the single byte FF and exits
  with 0. The shell executor raises \<open>UnicodeDecodeError\<close> out of \<open>execute\<close>; the
  AppleScript executor, whose body is inside \<open>try\<close>, returns the same failure as text.
\<close>

theorem execute_raises_across_boundary:
  "execute (\<lambda>args shell. Exited \<lparr>writes = [(Out, [0xFF])], returncode = 0\<rparr>)
     ShellExecutor (ustr ''printf '' @ [39, 92] @ ustr ''377'' @ [39]) =
   Inl (Exception ''UnicodeDecodeError''
     (codec_prefix @ ustr ''byte 0xff in position 0: invalid start byte''))
   \<and> execute (\<lambda>args shell. Exited \<lparr>writes = [(Out, [0xFF])], returncode = 0\<rparr>)
     HostAutomationExecutor
     (ustr ''do shell script '' @ [34] @ ustr ''printf '' @ [39, 92, 92] @ ustr ''377'' @ [39, 34]) =
   Inr (ustr ''Error: '' @ codec_prefix @ ustr ''byte 0xff in position 0: invalid start byte'')"
  by (simp add: execute_def execute_shell_execute_def apple_script_execute_def apple_script_try_def
       Popen_def communicate_def piped_def
       decode_def derr_def UnicodeDecodeError_def ustr_def hex2_def hexdigit_def
       str_int_def digits.simps reason_str_def)

subsection \<open>The text the AppleScript executor returns\<close>

lemma apple_script_execute_returns: "\<exists>s. apple_script_execute h a = Inr s"
  by (simp add: apple_script_execute_def split: sum.split)

text \<open>
  Claim C4, as the code has it. \<open>execute\<close> always returns a text. It is \<open>"Error: "\<close> and
  the message of the exception when \<open>Popen\<close> raises, when \<open>communicate\<close> raises, or when
  the bytes of standard output are not valid UTF-8 (\<open>decode\<close> raises inside the same
  \<open>try\<close>). Otherwise it is \<open>"Output: "\<close> and the stripped decoding of standard output:
  neither the return code nor what was written to standard error has a part in it.
\<close>

theorem apple_script_execute_cases:
  "apple_script_execute h apple_script =
     (case h (ArgList [ustr ''osascript'', ustr ''-e'', apple_script]) False of
        SpawnError e \<Rightarrow> Inr (ustr ''Error: '' @ exn_str e)
      | CommunicateError e \<Rightarrow> Inr (ustr ''Error: '' @ exn_str e)
      | Exited p \<Rightarrow>
          (case decode (concat (map snd (filter (\<lambda>w. fst w = Out) (writes p)))) of
             Inl e \<Rightarrow> Inr (ustr ''Error: '' @ exn_str e)
           | Inr output \<Rightarrow> Inr (ustr ''Output: '' @ strip output)))"
  by (simp add: apple_script_execute_def apple_script_try_def Popen_def communicate_def piped_def
        split: run.split sum.split)

text \<open>
  Claim C4 as stated fails: \<open>osascript\<close> was spawned and ran to its end with exit code
  0, but its standard output holds the byte FF, and the result is the \<open>"Error: "\<close> text,
  not one that begins with \<open>"Output: "\<close>.
\<close>

theorem apple_script_execute_counterexample:
  "apple_script_execute
     (\<lambda>args shell. Exited \<lparr>writes = [(Out, [0x4F, 0x4B, 0xFF, 0x0A])], returncode = 0\<rparr>)
     (ustr ''return the clipboard'') =
   Inr (ustr ''Error: '' @ codec_prefix @ ustr ''byte 0xff in position 2: invalid start byte'')"
  by (simp add: apple_script_execute_def apple_script_try_def Popen_def communicate_def piped_def
       decode_def derr_def emit_def UnicodeDecodeError_def ustr_def hex2_def hexdigit_def
       str_int_def digits.simps reason_str_def)

subsection \<open>The schemas\<close>

lemma ustr_eq_iff [simp]: "ustr a = ustr b \<longleftrightarrow> a = b"
  by (simp add: ustr_def inj_map_eq_map [OF inj_of_char])

lemma get_properties:
  "dict_get (model_json_schema cls) (ustr ''properties'') (Dict [])
     = Dict (map (\<lambda>f. (field_name f, field_schema f)) (model_fields cls))"
  by (simp add: dict_get_def model_json_schema_def)

lemma get_required:
  "dict_get (model_json_schema cls) (ustr ''required'') (List [])
     = List (map Str (required_names cls))"
  by (simp add: model_json_schema_def dict_get_def)

lemma execute_shell_openai_schema_eq:
  "execute_shell_openai_schema cls =
     Dict [(ustr ''type'', Str (ustr ''function'')),
           (ustr ''function'',
            Dict [(ustr ''name'', Str (ustr ''execute_shell_command'')),
                  (ustr ''description'', Str (doc_description cls)),
                  (ustr ''parameters'',
                   Dict [(ustr ''type'', Str (ustr ''object'')),
                         (ustr ''properties'',
                          Dict (map (\<lambda>f. (field_name f, field_schema f)) (model_fields cls))),
                         (ustr ''required'', List (map Str (required_names cls)))])])]"
  by (simp add: execute_shell_openai_schema_def Let_def get_required get_properties)

lemma apple_script_openai_schema_eq:
  "apple_script_openai_schema cls =
     Dict [(ustr ''type'', Str (ustr ''function'')),
           (ustr ''function'',
            Dict [(ustr ''name'', Str (ustr ''execute_apple_script'')),
                  (ustr ''description'', Str (doc_description cls)),
                  (ustr ''parameters'',
                   Dict [(ustr ''type'', Str (ustr ''object'')),
                         (ustr ''properties'',
                          Dict (map (\<lambda>f. (field_name f, field_schema f)) (model_fields cls))),
                         (ustr ''required'', List (map Str (required_names cls)))])])]"
  by (simp add: apple_script_openai_schema_def Let_def get_required get_properties)

lemma function_shape_entries:
  "function_shape
     (Dict [(ustr ''name'', Str n), (ustr ''description'', Str d),
            (ustr ''parameters'',
             Dict [(ustr ''type'', Str (ustr ''object'')), (ustr ''properties'', Dict ps),
                   (ustr ''required'', List rs)])])"
  by (simp add: function_shape_def parameters_shape_def keys_def getitem_def is_dict_def
        is_list_def is_str_def)

lemma required_shell: "required_names execute_shell_Function = [ustr ''shell_command'']"
  by (simp add: required_names_def execute_shell_Function_def)

lemma required_apple: "required_names apple_script_Function = [ustr ''apple_script'']"
  by (simp add: required_names_def apple_script_Function_def)

text \<open>
  Claim C3, as the code has it. The value each registered function supplies is
  \<open>{type: "function", function: F}\<close>, and it is \<open>F\<close> that has the shape \<open>{name,
  description, parameters: {type: object, properties: {...}, required: [...]}}\<close>. The
  entries of \<open>properties\<close> are the declared fields in their order, each with the schema
  of its field, and \<open>required\<close> lists the names of the declared fields that are required.
\<close>

theorem openai_schema_shape:
  "\<exists>f props.
     openai_schema r = Dict [(ustr ''type'', Str (ustr ''function'')), (ustr ''function'', f)]
     \<and> function_shape f
     \<and> getitem f (ustr ''parameters'') =
         Some (Dict [(ustr ''type'', Str (ustr ''object'')),
                     (ustr ''properties'', Dict props),
                     (ustr ''required'',
                      List (map (\<lambda>d. Str (field_name d))
                              (filter is_required (model_fields (declared r)))))])
     \<and> map fst props = map field_name (model_fields (declared r))
     \<and> map snd props = map field_schema (model_fields (declared r))"
proof (cases r)
  case ShellExecutor
  then show ?thesis
    by (simp add: openai_schema_def declared_def execute_shell_openai_schema_eq
          function_shape_entries getitem_def required_names_def comp_def)
next
  case HostAutomationExecutor
  then show ?thesis
    by (simp add: openai_schema_def declared_def apple_script_openai_schema_eq
          function_shape_entries getitem_def required_names_def comp_def)
qed

text \<open>
  Claim C3 as stated fails: the value the shell executor supplies has not the shape
  \<open>{name, description, parameters}\<close>; its keys are \<open>type\<close> and \<open>function\<close>.
\<close>

theorem openai_schema_counterexample:
  "\<not> function_shape (openai_schema ShellExecutor)
   \<and> keys (openai_schema ShellExecutor) = Some [ustr ''type'', ustr ''function'']"
  by (simp add: openai_schema_def execute_shell_openai_schema_eq function_shape_def keys_def)

text \<open>
  Claim C10. \<open>openai_schema\<close> is a function of the class alone. For the shell executor
  the function name is \<open>execute_shell_command\<close> and \<open>required\<close> is exactly
  \<open>["shell_command"]\<close>, its one declared field; for the AppleScript executor they are
  \<open>execute_apple_script\<close> and \<open>["apple_script"]\<close>; in both \<open>parameters.type\<close> is
  \<open>object\<close>.
\<close>

theorem openai_schema_names_required:
  "path (execute_shell_openai_schema execute_shell_Function) [ustr ''function'', ustr ''name'']
     = Some (Str (ustr ''execute_shell_command''))
   \<and> path (execute_shell_openai_schema execute_shell_Function)
       [ustr ''function'', ustr ''parameters'', ustr ''required'']
     = Some (List [Str (ustr ''shell_command'')])
   \<and> path (execute_shell_openai_schema execute_shell_Function)
       [ustr ''function'', ustr ''parameters'', ustr ''type'']
     = Some (Str (ustr ''object''))
   \<and> path (apple_script_openai_schema apple_script_Function) [ustr ''function'', ustr ''name'']
     = Some (Str (ustr ''execute_apple_script''))
   \<and> path (apple_script_openai_schema apple_script_Function)
       [ustr ''function'', ustr ''parameters'', ustr ''required'']
     = Some (List [Str (ustr ''apple_script'')])
   \<and> path (apple_script_openai_schema apple_script_Function)
       [ustr ''function'', ustr ''parameters'', ustr ''type'']
     = Some (Str (ustr ''object''))
   \<and> map field_name (model_fields execute_shell_Function) = [ustr ''shell_command'']
   \<and> map field_name (model_fields apple_script_Function) = [ustr ''apple_script'']"
  by (simp add: path_def getitem_def execute_shell_openai_schema_eq apple_script_openai_schema_eq
        required_shell required_apple)
     (simp add: execute_shell_Function_def apple_script_Function_def)

text \<open>The whole schema of the shell executor, evaluated.\<close>

lemma execute_shell_openai_schema_value:
  "execute_shell_openai_schema execute_shell_Function =
     Dict [(ustr ''type'', Str (ustr ''function'')),
       (ustr ''function'', Dict [
          (ustr ''name'', Str (ustr ''execute_shell_command'')),
          (ustr ''description'',
           Str (ustr ''Executes a shell command and returns the output (result).'')),
          (ustr ''parameters'', Dict [
             (ustr ''type'', Str (ustr ''object'')),
             (ustr ''properties'', Dict [(ustr ''shell_command'', Dict [
                 (ustr ''description'', Str (ustr ''Shell command to execute.'')),
                 (ustr ''example'', Str (ustr ''ls -la'')),
                 (ustr ''title'', Str (ustr ''Shell Command'')),
                 (ustr ''type'', Str (ustr ''string''))])]),
             (ustr ''required'', List [Str (ustr ''shell_command'')])])])]"
  by (simp add: execute_shell_openai_schema_eq required_shell)
     (simp add: execute_shell_Function_def doc_description_def strip_def lstrip_def rstrip_def
        isspace_def field_schema_def get_title_from_name_def title_def replace_char_def
        islower_def isupper_def json_type_def ustr_def)

section \<open>Properties of the orchestration engine\<close>

subsection \<open>Mode exclusivity\<close>

text \<open>
  Claim C5. A call that asks for shell generation and for code generation at once
  fails with \<open>ModeConflict\<close>, whatever its prompt, and the engine is left as it was: no
  state-machine transition is made and no request goes to the completion boundary.
\<close>

theorem mode_conflict:
  assumes "shell (flags c)" and "code (flags c)"
  shows "run_single_turn ev c st = (Inl ModeConflict, st)
       \<and> transitions (snd (run_single_turn ev c st)) = transitions st
       \<and> remote_calls (snd (run_single_turn ev c st)) = remote_calls st"
  using assms by (simp add: run_single_turn_def active_modes_def)

text \<open>Claim C5 at a concrete call: both flags set, on an engine with nothing stored.\<close>

theorem mode_conflict_witness:
  "shell (flags (example_call (ustr ''What is the capital of the Czech Republic?'') True True))
   \<and> code (flags (example_call (ustr ''What is the capital of the Czech Republic?'') True True))
   \<and> run_single_turn example_env
       (example_call (ustr ''What is the capital of the Czech Republic?'') True True) empty_engine
     = (Inl ModeConflict, empty_engine)"
proof -
  let ?c = "example_call (ustr ''What is the capital of the Czech Republic?'') True True"
  have h1: "shell (flags ?c)" and h2: "code (flags ?c)" by (simp_all add: example_call_def)
  from mode_conflict [OF h1 h2, of example_env empty_engine] h1 h2 show ?thesis by simp
qed


subsection \<open>The interactive loop\<close>

lemma repl_block_acc:
  "delimiter \<notin> set ls \<Longrightarrow>
   repl_actions sh (Some acc) (ls @ delimiter # rest)
     = Submit (join_lines (acc @ ls)) # repl_actions sh None rest"
  by (induction ls arbitrary: acc) auto

lemma repl_block:
  "delimiter \<notin> set ls \<Longrightarrow>
   repl_actions sh None (delimiter # ls @ delimiter # rest)
     = Submit (join_lines ls) # repl_actions sh None rest"
  using repl_block_acc [of ls sh "[]" rest] by simp

text \<open>
  Claim C8. The four lines, an opening delimiter, \<open>line one\<close>, \<open>line two\<close> and a closing
  delimiter, are submitted as the one prompt \<open>line one\<close>, line break, \<open>line two\<close>, in
  either mode, and no delimiter is among the submitted prompts.
\<close>

theorem repl_multiline_block:
  "repl_actions sh None [delimiter, ustr ''line one'', ustr ''line two'', delimiter]
     = [Submit (ustr ''line one'' @ [10] @ ustr ''line two'')]
   \<and> submitted (repl_actions sh None
         [delimiter, ustr ''line one'', ustr ''line two'', delimiter])
     = [ustr ''line one'' @ [10] @ ustr ''line two'']
   \<and> delimiter \<notin> set (submitted (repl_actions sh None
         [delimiter, ustr ''line one'', ustr ''line two'', delimiter]))"
  by (simp add: delimiter_def ustr_def submitted_def)


subsection \<open>The cache\<close>

lemma get_or_compute_hit:
  "map_of (entries c) k = Some v \<Longrightarrow>
   get_or_compute c k f w = (Inr v, c\<lparr>entries := (k, v) # filter (\<lambda>e. fst e \<noteq> k) (entries c)\<rparr>, w)"
  by (simp add: get_or_compute_def)

lemma get_or_compute_miss:
  "map_of (entries c) k = None \<Longrightarrow> f w = (Inr v, w') \<Longrightarrow>
   get_or_compute c k f w = (Inr v, c\<lparr>entries := take (max_entries c) ((k, v) # entries c)\<rparr>, w')"
  by (simp add: get_or_compute_def)

lemma get_or_compute_failure:
  "map_of (entries c) k = None \<Longrightarrow> f w = (Inl e, w') \<Longrightarrow>
   get_or_compute c k f w = (Inl e, c, w')"
  by (simp add: get_or_compute_def)

lemma repeated_hits:
  "map_of (entries c) k = Some v \<Longrightarrow>
   \<exists>c'. repeated n c k f w = (replicate n (Inr v), c', w)
        \<and> map_of (entries c') k = Some v \<and> max_entries c' = max_entries c"
proof (induction n arbitrary: c)
  case 0
  then show ?case by simp
next
  case (Suc n)
  let ?c1 = "c\<lparr>entries := (k, v) # filter (\<lambda>e. fst e \<noteq> k) (entries c)\<rparr>"
  have "map_of (entries ?c1) k = Some v" by simp
  from Suc.IH [OF this] obtain c' where
    "repeated n ?c1 k f w = (replicate n (Inr v), c', w)"
    "map_of (entries c') k = Some v" "max_entries c' = max_entries c"
    by auto
  with Suc.prems show ?case by (simp add: get_or_compute_hit)
qed



text \<open>
  The same from the side of the second call: once a call has returned a value, however
  it came by it, any number of further calls with the key return that value and do not
  invoke the compute function.
\<close>

lemma cache_later_calls:
  assumes "0 < max_entries c" and "get_or_compute c k compute_fn w = (Inr v, c1, w1)"
  shows "\<exists>c'. repeated n c1 k compute_fn w1 = (replicate n (Inr v), c', w1)"
proof -
  from assms obtain j where "max_entries c = Suc j" by (cases "max_entries c") auto
  with assms(2) have "map_of (entries c1) k = Some v"
    by (auto simp: get_or_compute_def split: option.splits prod.splits sum.splits)
  from repeated_hits [OF this, of n compute_fn w1] show ?thesis by blast
qed

text \<open>
  The store stays within its ceiling and keeps a key at most once, whatever the calls.
\<close>

lemma cache_ok_empty: "0 < n \<Longrightarrow> cache_ok \<lparr>entries = [], max_entries = n\<rparr>"
  by (simp add: cache_ok_def)

lemma length_filter_stored:
  assumes "map_of es k = Some v" and "distinct (map fst es)"
  shows "Suc (length (filter (\<lambda>e. fst e \<noteq> k) es)) = length es"
  using assms
proof (induction es)
  case Nil
  then show ?case by simp
next
  case (Cons e es)
  show ?case
  proof (cases "fst e = k")
    case True
    with Cons.prems have "k \<notin> fst ` set es" by auto
    then have "filter (\<lambda>e. fst e \<noteq> k) es = es" by (auto simp: filter_id_conv)
    with True show ?thesis by simp
  next
    case False
    with Cons show ?thesis by (cases e) auto
  qed
qed

lemma cache_ok_hit:
  assumes "cache_ok c" and "map_of (entries c) k = Some v"
  shows "cache_ok (c\<lparr>entries := (k, v) # filter (\<lambda>e. fst e \<noteq> k) (entries c)\<rparr>)"
proof -
  from assms have d: "distinct (map fst (entries c))" and l: "length (entries c) \<le> max_entries c"
    and p: "0 < max_entries c"
    by (simp_all add: cache_ok_def)
  have "distinct (map fst (filter (\<lambda>e. fst e \<noteq> k) (entries c)))"
    using d by (simp add: distinct_map_filter)
  moreover have "k \<notin> fst ` set (filter (\<lambda>e. fst e \<noteq> k) (entries c))" by auto
  ultimately show ?thesis
    using length_filter_stored [OF assms(2) d] l p by (simp add: cache_ok_def)
qed

lemma cache_ok_miss:
  assumes "cache_ok c" and "map_of (entries c) k = None"
  shows "cache_ok (c\<lparr>entries := take (max_entries c) ((k, v) # entries c)\<rparr>)"
proof -
  let ?n = "max_entries c"
  from assms have d: "distinct (map fst (entries c))" and p: "0 < ?n"
    by (simp_all add: cache_ok_def)
  from assms(2) have "k \<notin> fst ` set (entries c)" by (simp add: map_of_eq_None_iff)
  with d have "distinct (map fst ((k, v) # entries c))" by simp
  then have "distinct (take ?n (map fst ((k, v) # entries c)))"
    by (rule distinct_take)
  then have "distinct (map fst (take ?n ((k, v) # entries c)))"
    by (simp only: take_map)
  moreover have "length (take ?n ((k, v) # entries c)) \<le> ?n" by simp
  ultimately show ?thesis using p by (simp add: cache_ok_def del: take_Cons')
qed

lemma get_or_compute_keeps_ok:
  assumes "cache_ok c" and "get_or_compute c k f w = (r, c', w')"
  shows "cache_ok c'"
proof (cases "map_of (entries c) k")
  case None
  obtain q w1 where f: "f w = (q, w1)" by (cases "f w")
  show ?thesis
  proof (cases q)
    case (Inl e)
    with None f assms show ?thesis by (simp add: get_or_compute_failure)
  next
    case (Inr v)
    with None f assms cache_ok_miss [OF assms(1) None, of v] show ?thesis
      by (simp add: get_or_compute_miss)
  qed
next
  case (Some v)
  with assms cache_ok_hit [OF assms(1) Some] show ?thesis by (simp add: get_or_compute_hit)
qed

text \<open>
  Calls with other keys in between: an entry is dropped only when the ceiling is
  exceeded, and the least recently used one goes first. So after a call for a key has
  returned a value, and fewer calls for other keys than the ceiling have followed, the
  next call for the key is still a hit.
\<close>

lemma map_of_filter_other:
  "k' \<noteq> k \<Longrightarrow> map_of (filter (\<lambda>e. fst e \<noteq> k') es) k = map_of es k"
  by (induction es) auto

lemma position_filter_other:
  "k' \<noteq> k \<Longrightarrow> lru_position k (filter (\<lambda>e. fst e \<noteq> k') es) \<le> lru_position k es"
  by (induction es) (auto simp: lru_position_def)

lemma map_of_take_position:
  "map_of es k = Some v \<Longrightarrow> lru_position k es < n \<Longrightarrow> map_of (take n es) k = Some v"
proof (induction es arbitrary: n)
  case Nil
  then show ?case by simp
next
  case (Cons e es)
  then show ?case by (cases n) (auto simp: lru_position_def split: if_splits)
qed

lemma position_take:
  "lru_position k (take n es) \<le> lru_position k es"
proof (induction es arbitrary: n)
  case Nil
  then show ?case by (simp add: lru_position_def)
next
  case (Cons e es)
  then show ?case by (cases n) (auto simp: lru_position_def)
qed

lemma max_entries_get_or_compute:
  "get_or_compute c k f w = (r, c', w') \<Longrightarrow> max_entries c' = max_entries c"
  by (auto simp: get_or_compute_def split: option.splits prod.splits sum.splits)

lemma other_key_call:
  assumes "map_of (entries c) k = Some v" and "k' \<noteq> k"
    and "Suc (lru_position k (entries c)) < max_entries c"
    and "get_or_compute c k' f w = (r, c', w')"
  shows "map_of (entries c') k = Some v
         \<and> lru_position k (entries c') \<le> Suc (lru_position k (entries c))"
proof (cases "map_of (entries c) k'")
  case (Some v')
  with assms(4) have c': "c' = c\<lparr>entries := (k', v') # filter (\<lambda>e. fst e \<noteq> k') (entries c)\<rparr>"
    by (simp add: get_or_compute_hit)
  have "lru_position k (entries c') = Suc (lru_position k (filter (\<lambda>e. fst e \<noteq> k') (entries c)))"
    using assms(2) c' by (simp add: lru_position_def)
  with position_filter_other [OF assms(2), of "entries c"] assms(1,2) c' show ?thesis
    by (simp add: map_of_filter_other)
next
  case None
  obtain q w1 where f: "f w = (q, w1)" by (cases "f w")
  show ?thesis
  proof (cases q)
    case (Inl e)
    with None f assms show ?thesis by (simp add: get_or_compute_failure)
  next
    case (Inr v')
    with None f assms(4) have c': "c' = c\<lparr>entries := take (max_entries c) ((k', v') # entries c)\<rparr>"
      by (simp add: get_or_compute_miss)
    have p: "lru_position k ((k', v') # entries c) = Suc (lru_position k (entries c))"
      using assms(2) by (simp add: lru_position_def)
    have m: "map_of ((k', v') # entries c) k = Some v" using assms(1,2) by simp
    from map_of_take_position [OF m, of "max_entries c"] p assms(3)
    have "map_of (entries c') k = Some v" using c' by (simp del: take_Cons')
    moreover from position_take [of k "max_entries c" "(k', v') # entries c"] p
    have "lru_position k (entries c') \<le> Suc (lru_position k (entries c))"
      using c' by (simp del: take_Cons')
    ultimately show ?thesis by simp
  qed
qed

lemma other_keys_keep:
  "map_of (entries c) k = Some v \<Longrightarrow> k \<notin> fst ` set calls \<Longrightarrow>
   lru_position k (entries c) + length calls < max_entries c \<Longrightarrow>
   map_of (entries (fst (run_calls c calls w))) k = Some v"
proof (induction calls arbitrary: c w)
  case Nil
  then show ?case by simp
next
  case (Cons a calls)
  obtain k' f where a: "a = (k', f)" by (cases a)
  obtain r c' w' where g: "get_or_compute c k' f w = (r, c', w')"
    by (cases "get_or_compute c k' f w")
  from Cons.prems a have ne: "k' \<noteq> k" and rest: "k \<notin> fst ` set calls" by auto
  from Cons.prems have room: "Suc (lru_position k (entries c)) < max_entries c" by simp
  from other_key_call [OF Cons.prems(1) ne room g] have
    s: "map_of (entries c') k = Some v"
    and p: "lru_position k (entries c') \<le> Suc (lru_position k (entries c))"
    by simp_all
  from max_entries_get_or_compute [OF g] p Cons.prems(3)
  have "lru_position k (entries c') + length calls < max_entries c'" by simp
  from Cons.IH [OF s rest this, of w'] a g show ?case by simp
qed

lemma position_after_call:
  "get_or_compute c k f w = (Inr v, c', w') \<Longrightarrow> 0 < max_entries c \<Longrightarrow>
   map_of (entries c') k = Some v \<and> lru_position k (entries c') = 0"
  by (cases "max_entries c")
     (auto simp: get_or_compute_def lru_position_def split: option.splits prod.splits sum.splits)

lemma cache_hit_after_other_keys:
  assumes "get_or_compute c k f w = (Inr v, c1, w1)"
    and "k \<notin> fst ` set calls" and "length calls < max_entries c"
    and "run_calls c1 calls w1 = (c2, w2)"
  shows "\<exists>c3. get_or_compute c2 k f w2 = (Inr v, c3, w2)"
proof -
  from assms(3) have "0 < max_entries c" by simp
  from position_after_call [OF assms(1) this] have
    s: "map_of (entries c1) k = Some v" and p: "lru_position k (entries c1) = 0"
    by simp_all
  from max_entries_get_or_compute [OF assms(1)] p assms(3)
  have "lru_position k (entries c1) + length calls < max_entries c1" by simp
  from other_keys_keep [OF s assms(2) this, of w1] assms(4)
  have "map_of (entries c2) k = Some v" by simp
  then show ?thesis by (simp add: get_or_compute_hit)
qed


subsection \<open>Sessions\<close>

text \<open>
  A turn touches the stored sessions only when it appends at its end; the function
  loop, the cache and the state machine leave them alone.
\<close>

lemma sessions_enter [simp]: "sessions (enter ps st) = sessions st"
  by (simp add: enter_def)

lemma sessions_completion [simp]: "sessions (snd (completion ev u req st)) = sessions st"
  by (simp add: completion_def call_remote_def split: prod.split)

lemma sessions_complete [simp]: "sessions (snd (complete ev m u n msgs st)) = sessions st"
proof (induction n arbitrary: msgs st)
  case 0
  then show ?case by simp
next
  case (Suc n)
  obtain r st1 where c: "completion ev u (request ev m msgs) (enter [AWAITING_COMPLETION] st) = (r, st1)"
    by (cases "completion ev u (request ev m msgs) (enter [AWAITING_COMPLETION] st)")
  have s1: "sessions st1 = sessions st"
    using sessions_completion [of ev u "request ev m msgs" "enter [AWAITING_COMPLETION] st"] c
    by simp
  show ?case
  proof (cases r)
    case (Inl e)
    with c s1 show ?thesis by simp
  next
    case (Inr resp)
    show ?thesis
    proof (cases resp)
      case (Final t)
      with c s1 Inr show ?thesis by simp
    next
      case (FunctionCallIntent f args)
      with c Inr s1 Suc.IH show ?thesis by simp
    qed
  qed
qed

lemma sessions_complete_eq:
  "complete ev m u n msgs st = (q, st2) \<Longrightarrow> sessions st2 = sessions st"
  using sessions_complete [of ev m u n msgs st] by simp

lemma run_success:
  assumes "run_single_turn ev c st = (Inr answer, st')" and "session_id c = Some sid"
  shows "\<exists>r t st2.
      resolve ev st (call_role c) (mode_of (flags c)) (sessions st sid) = Inr r
    \<and> complete ev (mode_of (flags c)) (caching c) (Suc (max_rounds ev))
        (load st sid @ (case sessions st sid of None \<Rightarrow> [system_message r] | Some s \<Rightarrow> [])
           @ [user_message (prompt c)])
        (enter [ROLE_RESOLVED, HISTORY_LOADED] st) = (Inr t, st2)
    \<and> answer = post_process ev (expect r) t
    \<and> st' = session_append sid ((case sessions st sid of None \<Rightarrow> [system_message r] | Some s \<Rightarrow> [])
                 @ [user_message (prompt c), assistant_message answer]) r
               (enter [DONE] st2)"
  using assms
  by (auto simp: run_single_turn_def Let_def load_def simp del: complete.simps
      split: if_splits sum.splits prod.splits option.splits)

lemma run_failure:
  "run_single_turn ev c st = (Inl e, st') \<Longrightarrow> sessions st' = sessions st"
  by (auto simp: run_single_turn_def Let_def session_append_def simp del: complete.simps
      split: if_splits sum.splits prod.splits option.splits dest: sessions_complete_eq)

lemma sessions_run:
  "sessions (snd (run_single_turn ev c st)) = sessions st
   \<or> (\<exists>sid new r. sessions (snd (run_single_turn ev c st)) =
         (sessions st)(sid \<mapsto> (case sessions st sid of
              None \<Rightarrow> \<lparr>messages = new, bound_role = r\<rparr>
            | Some s \<Rightarrow> s\<lparr>messages := messages s @ new\<rparr>)))"
proof (cases "run_single_turn ev c st")
  case (Pair res st')
  show ?thesis
  proof (cases res)
    case (Inl e)
    with Pair run_failure [of ev c st e st'] show ?thesis by simp
  next
    case (Inr answer)
    show ?thesis
    proof (cases "session_id c")
      case None
      with Pair Inr have "sessions st' = sessions st"
        by (auto simp: run_single_turn_def Let_def simp del: complete.simps
            split: if_splits sum.splits prod.splits dest: sessions_complete_eq)
      with Pair show ?thesis by simp
    next
      case (Some sid)
      from run_success [OF Pair [unfolded Inr] Some] obtain r t st2 new where
        "complete ev (mode_of (flags c)) (caching c) (Suc (max_rounds ev))
           (load st sid @ (case sessions st sid of None \<Rightarrow> [system_message r] | Some s \<Rightarrow> [])
              @ [user_message (prompt c)])
           (enter [ROLE_RESOLVED, HISTORY_LOADED] st) = (Inr t, st2)"
        and "st' = session_append sid new r (enter [DONE] st2)"
        by blast
      then have "sessions st' = (sessions st)(sid \<mapsto> (case sessions st sid of
              None \<Rightarrow> \<lparr>messages = new, bound_role = r\<rparr>
            | Some s \<Rightarrow> s\<lparr>messages := messages s @ new\<rparr>))"
        by (simp add: session_append_def sessions_complete_eq del: complete.simps)
      with Pair show ?thesis by auto
    qed
  qed
qed

lemma run_keeps_binding:
  assumes "sessions st sid = Some s"
  shows "\<exists>s'. sessions (snd (run_single_turn ev c st)) sid = Some s' \<and> bound_role s' = bound_role s"
proof -
  let ?st' = "snd (run_single_turn ev c st)"
  from sessions_run [of ev c st] consider
      (same) "sessions ?st' = sessions st"
    | (appended) sid' new r where "sessions ?st' =
         (sessions st)(sid' \<mapsto> (case sessions st sid' of
              None \<Rightarrow> \<lparr>messages = new, bound_role = r\<rparr>
            | Some s \<Rightarrow> s\<lparr>messages := messages s @ new\<rparr>))"
    by blast
  then show ?thesis
  proof cases
    case same
    with assms show ?thesis by simp
  next
    case appended
    show ?thesis
    proof (cases "sid' = sid")
      case True
      with appended assms show ?thesis by simp
    next
      case False
      with appended assms show ?thesis by simp
    qed
  qed
qed

lemma snd_run_turns_Cons:
  "snd (run_turns ev (c # cs) st) = snd (run_turns ev cs (snd (run_single_turn ev c st)))"
  by (simp split: prod.split)

lemma run_turns_keeps_binding:
  "sessions st sid = Some s \<Longrightarrow>
   \<exists>s'. sessions (snd (run_turns ev cs st)) sid = Some s' \<and> bound_role s' = bound_role s"
proof (induction cs arbitrary: st s)
  case Nil
  then show ?case by simp
next
  case (Cons c cs)
  from run_keeps_binding [OF Cons.prems, of ev c] obtain s1 where
    s1: "sessions (snd (run_single_turn ev c st)) sid = Some s1" "bound_role s1 = bound_role s"
    by blast
  from Cons.IH [OF s1(1)] s1(2) show ?case by (simp only: snd_run_turns_Cons)
qed

lemma loop_entry_other:
  "sid \<noteq> temporary_session \<Longrightarrow> sessions (loop_entry sid' st) sid = sessions st sid"
  by (simp add: loop_entry_def delete_session_def)

lemma invoke_keeps_binding:
  assumes "sid \<noteq> temporary_session" and "sessions st sid = Some s"
  shows "\<exists>s'. sessions (invoke ev i st) sid = Some s' \<and> bound_role s' = bound_role s"
proof (cases i)
  case (SingleTurn c)
  with run_keeps_binding [OF assms(2), of ev c] show ?thesis by (simp add: invoke_def)
next
  case (Loop fl sid' u lines)
  from assms have "sessions (loop_entry sid' st) sid = Some s" by (simp add: loop_entry_other)
  from run_turns_keeps_binding [OF this] Loop show ?thesis
    by (simp add: invoke_def repl_loop_def)
qed

lemma run_invocations_keeps_binding:
  "sid \<noteq> temporary_session \<Longrightarrow> sessions st sid = Some s \<Longrightarrow>
   \<exists>s'. sessions (run_invocations ev is st) sid = Some s' \<and> bound_role s' = bound_role s"
proof (induction "is" arbitrary: st s)
  case Nil
  then show ?case by simp
next
  case (Cons i "is")
  from invoke_keeps_binding [OF Cons.prems, of ev i] obtain s1 where
    s1: "sessions (invoke ev i st) sid = Some s1" "bound_role s1 = bound_role s"
    by blast
  from Cons.IH [OF Cons.prems(1) s1(1)] s1(2) show ?case by simp
qed

lemma conflict_on_bound_session:
  assumes "sessions st sid = Some s" and "expect (bound_role s) = Code"
    and "session_id c = Some sid"
    and "shell (flags c)" and "\<not> describe_shell (flags c)" and "\<not> code (flags c)"
  shows "run_single_turn ev c st = (Inl RoleModeConflict, st)"
  using assms
  by (simp add: run_single_turn_def active_modes_def mode_of_def resolve_def compatible_def
        expect_of_mode_def del: complete.simps)

lemma run_turns_all_conflict:
  "list_all (\<lambda>c. run_single_turn ev c st = (Inl RoleModeConflict, st)) cs \<Longrightarrow>
   run_turns ev cs st = (replicate (length cs) (Inl RoleModeConflict), st)"
  by (induction cs) auto

lemma loop_on_bound_session:
  assumes "sid \<noteq> temporary_session"
    and "sessions st sid = Some s" and "expect (bound_role s) = Code"
    and "shell fl" and "\<not> describe_shell fl" and "\<not> code fl"
  shows "repl_loop ev fl sid u lines st =
           (replicate (length (submitted (repl_actions True None lines))) (Inl RoleModeConflict), st)"
proof -
  let ?cs = "map (\<lambda>p. \<lparr>prompt = p, flags = fl, session_id = Some sid, call_role = None,
                  caching = u\<rparr>) (submitted (repl_actions True None lines))"
  have "run_single_turn ev c st = (Inl RoleModeConflict, st)" if "c \<in> set ?cs" for c
    using that assms(4-6) by (auto intro!: conflict_on_bound_session [OF assms(2,3)])
  then have "list_all (\<lambda>c. run_single_turn ev c st = (Inl RoleModeConflict, st)) ?cs"
    by (simp only: list_all_iff) blast
  from run_turns_all_conflict [OF this] assms(1,4) show ?thesis
    by (simp add: repl_loop_def loop_entry_def)
qed

text \<open>
  Evaluating turns and loops with the example surroundings.
\<close>

lemma scripted_env_simps [simp]:
  "remote (scripted_env reply) req = (case rev (key_messages req) of
            [] \<Rightarrow> Inl CompletionBoundaryError
          | m # ms \<Rightarrow> Inr (Final (reply (content m))))"
  "post_process (scripted_env reply) e t = t"
  "max_rounds (scripted_env reply) = 4"
  "default_text (scripted_env reply) = default_text example_env"
  by (simp_all add: scripted_env_def example_env_def)

lemma message_contents [simp]:
  "content (user_message p) = p"
  by (simp add: user_message_def)

lemma complete_numeral:
  "complete ev m u (numeral k) msgs st =
     (case completion ev u (request ev m msgs) (enter [AWAITING_COMPLETION] st) of
        (Inl e, st1) \<Rightarrow> (Inl e, st1)
      | (Inr (Final t), st1) \<Rightarrow> (Inr t, st1)
      | (Inr (FunctionCallIntent f args), st1) \<Rightarrow>
          complete ev m u (pred_numeral k)
            (msgs @ [intent_message f args, function_message f (dispatch ev f args)])
            (enter [FUNCTION_REQUESTED, DISPATCHING] st1))"
  by (subst numeral_eq_Suc) (rule complete.simps)

lemma example_call_simps [simp]:
  "prompt (example_call p sh cd) = p"
  "shell (flags (example_call p sh cd)) = sh"
  "describe_shell (flags (example_call p sh cd)) = False"
  "code (flags (example_call p sh cd)) = cd"
  "session_id (example_call p sh cd) = Some (ustr ''temp'')"
  "call_role (example_call p sh cd) = None"
  "caching (example_call p sh cd) = False"
  by (simp_all add: example_call_def)

lemma example_chat_simps [simp]:
  "prompt (example_chat sid p sh cd) = p"
  "shell (flags (example_chat sid p sh cd)) = sh"
  "describe_shell (flags (example_chat sid p sh cd)) = False"
  "code (flags (example_chat sid p sh cd)) = cd"
  "session_id (example_chat sid p sh cd) = Some sid"
  "call_role (example_chat sid p sh cd) = None"
  "caching (example_chat sid p sh cd) = False"
  by (simp_all add: example_chat_def)

lemma example_flags_simps [simp]:
  "shell (example_flags sh cd) = sh"
  "describe_shell (example_flags sh cd) = False"
  "code (example_flags sh cd) = cd"
  by (simp_all add: example_flags_def)

lemma function_env_simps [simp]:
  "remote function_env req = (case rev (key_messages req) of
            [] \<Rightarrow> Inl CompletionBoundaryError
          | m # ms \<Rightarrow>
              if role m = User
              then Inr (FunctionCallIntent (ustr ''execute_shell_command'')
                     (ustr ''{'' @ [34] @ ustr ''shell_command'' @ [34] @ ustr '': '' @ [34]
                      @ ustr ''ls -la'' @ [34] @ ustr ''}''))
              else Inr (Final (ustr ''ls -la'')))"
  "post_process function_env e t = t"
  "max_rounds function_env = 4"
  "dispatch function_env f args = ustr ''Exit code: 0, Output:'' @ [10] @ ustr ''total 0'' @ [10]"
  by (simp_all add: function_env_def example_env_def)

lemma empty_engine_simps [simp]:
  "sessions empty_engine sid = None"
  "remote_calls empty_engine = []"
  "transitions empty_engine = []"
  by (simp_all add: empty_engine_def)

lemma message_roles [simp]:
  "role (user_message p) = User" "role (function_message f r) = Function"
  "role (intent_message f a) = Assistant" "role (system_message rd) = System"
  "role (assistant_message t) = Assistant"
  by (simp_all add: user_message_def function_message_def intent_message_def
        system_message_def assistant_message_def)

lemma key_messages_request [simp]: "key_messages (request ev m msgs) = msgs"
  by (simp add: request_def)

text \<open>A turn answered by the scripted service, on a new session and on one that exists.\<close>

lemma scripted_turn:
  assumes "\<not> (sh \<and> cd)" and "sessions st sid = None"
  shows "fst (run_single_turn (scripted_env reply) (example_chat sid p sh cd) st) = Inr (reply p)
       \<and> sessions (snd (run_single_turn (scripted_env reply) (example_chat sid p sh cd) st)) =
           (sessions st)(sid \<mapsto>
              \<lparr>messages = [system_message (default_role (scripted_env reply) (mode_of (example_flags sh cd))),
                           user_message p, assistant_message (reply p)],
               bound_role = default_role (scripted_env reply) (mode_of (example_flags sh cd))\<rparr>)"
  using assms
  by (simp add: run_single_turn_def active_modes_def resolve_def Let_def completion_def
        call_remote_def enter_def complete_numeral session_append_def mode_of_def)

lemma scripted_next_turn:
  assumes "\<not> (sh \<and> cd)" and "sessions st sid = Some s"
    and "compatible (expect (bound_role s)) (mode_of (example_flags sh cd))"
  shows "fst (run_single_turn (scripted_env reply) (example_chat sid p sh cd) st) = Inr (reply p)
       \<and> sessions (snd (run_single_turn (scripted_env reply) (example_chat sid p sh cd) st)) =
           (sessions st)(sid \<mapsto>
              s\<lparr>messages := messages s @ [user_message p, assistant_message (reply p)]\<rparr>)"
  using assms
  by (cases sh; cases cd;
      simp add: run_single_turn_def active_modes_def resolve_def Let_def completion_def
        call_remote_def enter_def complete_numeral session_append_def mode_of_def)

lemma loop_call:
  "\<lparr>prompt = p, flags = example_flags sh cd, session_id = Some sid, call_role = None,
     caching = False\<rparr> = example_chat sid p sh cd"
  by (simp add: example_chat_def example_flags_def)

lemma run_turns_scripted:
  assumes "\<not> (sh \<and> cd)" and "sessions st sid = Some s"
    and "compatible (expect (bound_role s)) (mode_of (example_flags sh cd))"
  shows "fst (run_turns (scripted_env reply) (map (\<lambda>p. example_chat sid p sh cd) ps) st)
           = map (\<lambda>p. Inr (reply p)) ps
       \<and> sessions (snd (run_turns (scripted_env reply) (map (\<lambda>p. example_chat sid p sh cd) ps) st)) sid =
           Some (s\<lparr>messages := messages s
              @ concat (map (\<lambda>p. [user_message p, assistant_message (reply p)]) ps)\<rparr>)"
  using assms(2,3)
proof (induction ps arbitrary: st s)
  case Nil
  then show ?case by simp
next
  case (Cons p ps)
  obtain r st1 where t: "run_single_turn (scripted_env reply) (example_chat sid p sh cd) st = (r, st1)"
    by (cases "run_single_turn (scripted_env reply) (example_chat sid p sh cd) st")
  from scripted_next_turn [OF assms(1) Cons.prems, of reply p] t
  have r: "r = Inr (reply p)"
    and s1: "sessions st1 sid =
       Some (s\<lparr>messages := messages s @ [user_message p, assistant_message (reply p)]\<rparr>)"
    by simp_all
  from Cons.prems(2)
  have "compatible (expect (bound_role
     (s\<lparr>messages := messages s @ [user_message p, assistant_message (reply p)]\<rparr>)))
     (mode_of (example_flags sh cd))" by simp
  from Cons.IH [OF s1 this] t r show ?case
    by (simp add: split_def)
qed

lemma temporary_loop:
  assumes "\<not> (sh \<and> cd)" and "submitted (repl_actions sh None lines) = p # ps"
  shows "fst (repl_loop (scripted_env reply) (example_flags sh cd) temporary_session False lines st)
           = map (\<lambda>p. Inr (reply p)) (p # ps)
       \<and> sessions (snd (repl_loop (scripted_env reply) (example_flags sh cd) temporary_session False lines st))
           temporary_session =
           Some \<lparr>messages = system_message (default_role (scripted_env reply) (mode_of (example_flags sh cd)))
                    # concat (map (\<lambda>p. [user_message p, assistant_message (reply p)]) (p # ps)),
                 bound_role = default_role (scripted_env reply) (mode_of (example_flags sh cd))\<rparr>"
proof -
  let ?st0 = "delete_session temporary_session st"
  let ?r = "default_role (scripted_env reply) (mode_of (example_flags sh cd))"
  have n: "sessions ?st0 temporary_session = None" by (simp add: delete_session_def)
  obtain r st1 where
    t: "run_single_turn (scripted_env reply) (example_chat temporary_session p sh cd) ?st0 = (r, st1)"
    by (cases "run_single_turn (scripted_env reply) (example_chat temporary_session p sh cd) ?st0")
  from scripted_turn [OF assms(1) n, of reply p] t
  have r: "r = Inr (reply p)"
    and s1: "sessions st1 temporary_session =
       Some \<lparr>messages = [system_message ?r, user_message p, assistant_message (reply p)],
             bound_role = ?r\<rparr>"
    by simp_all
  have "compatible (expect (bound_role
      \<lparr>messages = [system_message ?r, user_message p, assistant_message (reply p)],
       bound_role = ?r\<rparr>)) (mode_of (example_flags sh cd))"
    by (simp add: compatible_def default_role_def)
  from run_turns_scripted [OF assms(1) s1 this, of reply ps] t r assms(2) show ?thesis
    by (simp add: repl_loop_def loop_entry_def loop_call split_def)
qed

text \<open>
  A loop entered on a session other than \<open>temp\<close> continues it, as \<open>test_repl_code\<close> finds
  on coming back after exit.
\<close>

lemma loop_continues_session:
  assumes "sid \<noteq> temporary_session" and "\<not> (sh \<and> cd)" and "sessions st sid = Some s"
    and "compatible (expect (bound_role s)) (mode_of (example_flags sh cd))"
  shows "fst (repl_loop (scripted_env reply) (example_flags sh cd) sid False lines st)
           = map (\<lambda>p. Inr (reply p)) (submitted (repl_actions sh None lines))
       \<and> load (snd (repl_loop (scripted_env reply) (example_flags sh cd) sid False lines st)) sid
           = load st sid
             @ concat (map (\<lambda>p. [user_message p, assistant_message (reply p)])
                 (submitted (repl_actions sh None lines)))"
  using run_turns_scripted [OF assms(2,3,4), of reply "submitted (repl_actions sh None lines)"]
    assms(1,3)
  by (simp add: repl_loop_def loop_entry_def loop_call load_def)

text \<open>
  The loop of \<open>test_repl_shell\<close>: entered on \<open>temp\<close> in shell mode with two prompts,
  whatever an earlier loop left there. Both prompts are answered, and the session
  holds the system message of the shell role, then each prompt with its answer.
\<close>

lemma repl_lines_shell:
  "submitted (repl_actions True None
      [ustr ''What is in current folder?'', ustr ''Simple sort by name'', exit_token])
     = [ustr ''What is in current folder?'', ustr ''Simple sort by name'']"
  by (simp add: submitted_def delimiter_def exit_token_def ustr_def)

lemma repl_shell_overwrites_temporary_session:
  "fst (repl_loop (scripted_env example_reply) (example_flags True False) temporary_session False
      [ustr ''What is in current folder?'', ustr ''Simple sort by name'', exit_token] st)
     = [Inr (ustr ''ls -la''), Inr (ustr ''ls -la | sort'')]
   \<and> load (snd (repl_loop (scripted_env example_reply) (example_flags True False)
        temporary_session False
        [ustr ''What is in current folder?'', ustr ''Simple sort by name'', exit_token] st))
        temporary_session
     = [system_message (default_role (scripted_env example_reply) ShellGeneration),
        user_message (ustr ''What is in current folder?''),
        assistant_message (ustr ''ls -la''),
        user_message (ustr ''Simple sort by name''),
        assistant_message (ustr ''ls -la | sort'')]"
  using temporary_loop [of True False _ _ _ example_reply st, OF _ repl_lines_shell]
  by (simp add: load_def mode_of_def example_reply_def)

text \<open>
  A turn with a function loop: the service asks for \<open>execute_shell_command\<close> first. Two
  requests go out, the second with the intent and the result of the function; the
  session holds the system message, the prompt and the answer.
\<close>

lemma function_turn_stored:
  "fst (run_single_turn function_env (example_call p True False) empty_engine)
     = Inr (ustr ''ls -la'')
   \<and> load (snd (run_single_turn function_env (example_call p True False) empty_engine))
        (ustr ''temp'')
     = [system_message (default_role function_env ShellGeneration), user_message p,
        assistant_message (ustr ''ls -la'')]
   \<and> map key_messages
        (remote_calls (snd (run_single_turn function_env (example_call p True False) empty_engine)))
     = [system_message (default_role function_env ShellGeneration), user_message p]
       # [system_message (default_role function_env ShellGeneration), user_message p,
         intent_message (ustr ''execute_shell_command'')
           (ustr ''{'' @ [34] @ ustr ''shell_command'' @ [34] @ ustr '': '' @ [34]
              @ ustr ''ls -la'' @ [34] @ ustr ''}''),
         function_message (ustr ''execute_shell_command'')
           (ustr ''Exit code: 0, Output:'' @ [10] @ ustr ''total 0'' @ [10])]
       # []"
  by (simp add: run_single_turn_def active_modes_def resolve_def Let_def completion_def
        call_remote_def enter_def complete_numeral session_append_def mode_of_def load_def)



text \<open>
  Claim C7, for every session other than the temporary session \<open>temp\<close>. The session did
  not exist and a successful turn creates it under a role that expects code. Whatever
  single turns and loops are run afterwards, a call that drives the session in shell
  mode fails with \<open>RoleModeConflict\<close> and gives back the engine as it was: no request has
  gone to the completion boundary and loading the session gives the same messages. A
  loop in shell mode on the session fails in the same way at every prompt.
\<close>

theorem role_mode_binding:
  assumes "sid \<noteq> temporary_session"
    and "sessions st0 sid = None"
    and "session_id c1 = Some sid"
    and "resolve ev st0 (call_role c1) (mode_of (flags c1)) None = Inr r"
    and "expect r = Code"
    and "run_single_turn ev c1 st0 = (Inr a, st1)"
    and "st = run_invocations ev later st1"
    and "session_id c = Some sid"
    and "shell (flags c)" and "\<not> describe_shell (flags c)" and "\<not> code (flags c)"
  shows "run_single_turn ev c st = (Inl RoleModeConflict, st)
       \<and> remote_calls (snd (run_single_turn ev c st)) = remote_calls st
       \<and> load (snd (run_single_turn ev c st)) sid = load st sid
       \<and> repl_loop ev (flags c) sid u lines st =
           (replicate (length (submitted (repl_actions True None lines))) (Inl RoleModeConflict), st)"
proof -
  from run_success [OF assms(6) assms(3)] assms(2,4) obtain new q st2 where
    c: "complete ev (mode_of (flags c1)) (caching c1) (Suc (max_rounds ev))
           (load st0 sid @ [system_message r] @ [user_message (prompt c1)])
           (enter [ROLE_RESOLVED, HISTORY_LOADED] st0) = (q, st2)"
    and st1: "st1 = session_append sid new r (enter [DONE] st2)"
    by auto
  from sessions_complete_eq [OF c] assms(2) have "sessions st2 sid = None" by simp
  with st1 have "sessions st1 sid = Some \<lparr>messages = new, bound_role = r\<rparr>"
    by (simp add: session_append_def)
  from run_invocations_keeps_binding [OF assms(1) this, of ev later] assms(7) obtain s where
    s: "sessions st sid = Some s" "bound_role s = r"
    by auto
  with assms(5) have e: "expect (bound_role s) = Code" by simp
  from conflict_on_bound_session [OF s(1) e assms(8-11), of ev]
    loop_on_bound_session [OF assms(1) s(1) e assms(9-11), of ev u lines]
  show ?thesis by simp
qed

text \<open>
  Claim C7 at a concrete session, following \<open>test_chat_code\<close>: a turn in code mode creates
  \<open>test_code\<close>, a second turn in code mode and a loop on \<open>temp\<close> follow, and then the
  session is driven in shell mode, by a single turn and by a loop.
\<close>

theorem role_mode_binding_witness:
  "ustr ''test_code'' \<noteq> temporary_session
   \<and> sessions empty_engine (ustr ''test_code'') = None
   \<and> run_single_turn (scripted_env example_reply)
        (example_chat (ustr ''test_code'') (ustr ''Using python request localhost:80.'') False True)
        empty_engine
      = (Inr (ustr ''requests.get('' @ [34] @ ustr ''http://localhost:80'' @ [34] @ ustr '')''),
         snd (run_single_turn (scripted_env example_reply)
           (example_chat (ustr ''test_code'') (ustr ''Using python request localhost:80.'') False True)
           empty_engine))
   \<and> (let st = run_invocations (scripted_env example_reply)
           [SingleTurn (example_chat (ustr ''test_code'') (ustr ''Change port to 443.'') False True),
            Loop (example_flags True False) temporary_session False
              [ustr ''What is in current folder?'', exit_token]]
           (snd (run_single_turn (scripted_env example_reply)
              (example_chat (ustr ''test_code'') (ustr ''Using python request localhost:80.'')
                 False True)
              empty_engine));
         c = example_chat (ustr ''test_code'') (ustr ''Change port to 443.'') True False
       in run_single_turn (scripted_env example_reply) c st = (Inl RoleModeConflict, st)
        \<and> remote_calls (snd (run_single_turn (scripted_env example_reply) c st)) = remote_calls st
        \<and> load (snd (run_single_turn (scripted_env example_reply) c st)) (ustr ''test_code'')
            = load st (ustr ''test_code'')
        \<and> repl_loop (scripted_env example_reply) (flags c) (ustr ''test_code'') False
             [ustr ''Change port to 443.'', exit_token] st
            = ([Inl RoleModeConflict], st))"
proof -
  let ?ev = "scripted_env example_reply"
  let ?sid = "ustr ''test_code''"
  let ?c1 = "example_chat ?sid (ustr ''Using python request localhost:80.'') False True"
  let ?c = "example_chat ?sid (ustr ''Change port to 443.'') True False"
  let ?later = "[SingleTurn (example_chat ?sid (ustr ''Change port to 443.'') False True),
            Loop (example_flags True False) temporary_session False
              [ustr ''What is in current folder?'', exit_token]]"
  have h1: "?sid \<noteq> temporary_session" by (simp add: temporary_session_def)
  have h2: "sessions empty_engine ?sid = None" by simp
  have h3: "session_id ?c1 = Some ?sid" by simp
  have h4: "resolve ?ev empty_engine (call_role ?c1) (mode_of (flags ?c1)) None
      = Inr (default_role ?ev CodeGeneration)"
    by (simp add: resolve_def mode_of_def)
  have h5: "expect (default_role ?ev CodeGeneration) = Code"
    by (simp add: default_role_def expect_of_mode_def)
  have "fst (run_single_turn ?ev ?c1 empty_engine)
      = Inr (ustr ''requests.get('' @ [34] @ ustr ''http://localhost:80'' @ [34] @ ustr '')'')"
    using scripted_turn [of False True empty_engine ?sid example_reply
        "ustr ''Using python request localhost:80.''"]
    by (simp add: example_reply_def)
  then have h6: "run_single_turn ?ev ?c1 empty_engine
      = (Inr (ustr ''requests.get('' @ [34] @ ustr ''http://localhost:80'' @ [34] @ ustr '')''),
         snd (run_single_turn ?ev ?c1 empty_engine))"
    by (simp add: prod_eq_iff)
  have h8: "session_id ?c = Some ?sid" by simp
  have h9: "shell (flags ?c)" "\<not> describe_shell (flags ?c)" "\<not> code (flags ?c)" by simp_all
  have l: "length (submitted (repl_actions True None [ustr ''Change port to 443.'', exit_token]))
      = 1"
    by (simp add: submitted_def delimiter_def exit_token_def ustr_def)
  from role_mode_binding [OF h1 h2 h3 h4 h5 h6 refl h8 h9, of ?later False
      "[ustr ''Change port to 443.'', exit_token]"] h1 h2 h6 l
  show ?thesis by (simp add: Let_def)
qed

text \<open>
  Claim C7 does not hold of the temporary session. A loop in code mode on \<open>temp\<close>
  creates the session under the role that expects code. A loop in shell mode entered on
  \<open>temp\<close> afterwards discards it: the prompt is answered, there is no
  \<open>RoleModeConflict\<close>, and the stored messages are those of the shell loop alone.
\<close>

theorem role_mode_binding_counterexample:
  "(let ev = scripted_env example_reply;
        code_loop = repl_loop ev (example_flags False True) temporary_session False
          [ustr ''Using python request localhost:80.'', exit_token] empty_engine;
        shell_loop = repl_loop ev (example_flags True False) temporary_session False
          [ustr ''What is in current folder?'', exit_token] (snd code_loop)
    in sessions empty_engine temporary_session = None
     \<and> map_option (\<lambda>s. expect (bound_role s)) (sessions (snd code_loop) temporary_session)
         = Some Code
     \<and> load (snd code_loop) temporary_session
         = [system_message (default_role ev CodeGeneration),
            user_message (ustr ''Using python request localhost:80.''),
            assistant_message
              (ustr ''requests.get('' @ [34] @ ustr ''http://localhost:80'' @ [34] @ ustr '')'')]
     \<and> fst shell_loop = [Inr (ustr ''ls -la'')]
     \<and> load (snd shell_loop) temporary_session
         = [system_message (default_role ev ShellGeneration),
            user_message (ustr ''What is in current folder?''),
            assistant_message (ustr ''ls -la'')])"
proof -
  have a: "submitted (repl_actions False None
      [ustr ''Using python request localhost:80.'', exit_token])
      = [ustr ''Using python request localhost:80.'']"
    by (simp add: submitted_def delimiter_def exit_token_def ustr_def)
  have b: "submitted (repl_actions True None [ustr ''What is in current folder?'', exit_token])
      = [ustr ''What is in current folder?'']"
    by (simp add: submitted_def delimiter_def exit_token_def ustr_def)
  note c = temporary_loop [of False True _ _ _ example_reply empty_engine, OF _ a]
  note d = temporary_loop [of True False _ _ _ example_reply
      "snd (repl_loop (scripted_env example_reply) (example_flags False True) temporary_session
         False [ustr ''Using python request localhost:80.'', exit_token] empty_engine)", OF _ b]
  from c d show ?thesis
    by (simp add: Let_def load_def mode_of_def example_reply_def default_role_def
          expect_of_mode_def)
qed

end
